theory Spec2Isabelle
  imports Complex_Main "HOL-Library.AList"
begin

section \<open>wbplot.utils.images: a shallow embedding\<close>

text \<open>
  The module \<^verbatim>\<open>wbplot/utils/images.py\<close> validates scalar vectors, pads a unilateral
  vector to a bilateral one, maps scalars to RGBA colours, patches the colour table of
  a CIFTI label file and writes images through nibabel.

  Conventions of the embedding:
  \<^item> a float64 is a \<^typ>\<open>real\<close> (NaN, the infinities and rounding are outside the model)
    and an int64 is an \<^typ>\<open>int\<close> (overflow is outside the model);
  \<^item> a Python \<^verbatim>\<open>str\<close> is a \<^typ>\<open>string\<close>, and an argument that is a string or
    \<^verbatim>\<open>None\<close> is a \<^typ>\<open>string option\<close>;
  \<^item> every \<^verbatim>\<open>raise\<close> is an \<open>Inl\<close> result carrying the exception;
  \<^item> functions of \<^verbatim>\<open>wbplot.plots\<close>, the colormaps of matplotlib, \<^verbatim>\<open>str\<close> and the
    ElementTree parser and serializer are fields of a record of externals that every
    operation calling them takes as its first argument; the library functions whose
    result a property depends on (\<^verbatim>\<open>Normalize\<close>, \<^verbatim>\<open>os.path.join\<close>, NumPy's array
    construction and assignment, nibabel's extensions) are defined here as the
    libraries define them.
\<close>

subsection \<open>Exceptions\<close>

datatype error =
    ValueError string
  | RuntimeError string
  | IndexError string
  | FileNotFoundError string
  | OSError string

subsection \<open>Hemisphere tags\<close>

text \<open>
  \<^verbatim>\<open>check_hemisphere\<close>: membership in the list of options, then three membership tests
  in source order. The third list holds the string \<^verbatim>\<open>'None'\<close>, not the value
  \<^verbatim>\<open>None\<close>; a \<^verbatim>\<open>None\<close> argument passes the options test, matches none of the three
  lists and falls off the end of the function, which returns \<^verbatim>\<open>None\<close>.
\<close>

definition options :: "string option list" where
  "options = [Some ''left'', Some ''l'', Some ''L'', Some ''right'', Some ''r'', Some ''R'',
              None, Some ''lr'', Some ''LR'']"

definition format_hemisphere :: "string option \<Rightarrow> string" where
  "format_hemisphere h = (case h of None \<Rightarrow> ''None'' | Some s \<Rightarrow> s)"

definition check_hemisphere :: "string option \<Rightarrow> error + string option" where
  "check_hemisphere hemisphere =
     (if hemisphere \<notin> set options
      then Inl (ValueError (format_hemisphere hemisphere @ '' if not a valid hemisphere''))
      else if hemisphere \<in> set [Some ''left'', Some ''l'', Some ''L''] then Inr (Some ''left'')
      else if hemisphere \<in> set [Some ''right'', Some ''r'', Some ''R''] then Inr (Some ''right'')
      else if hemisphere \<in> set [Some ''None'', Some ''lr'', Some ''LR''] then Inr None
      else Inr None)"

subsection \<open>Hemisphere padding\<close>

text \<open>
  A one-dimensional array is the list of its elements. \<^verbatim>\<open>np.zeros(360)\<close> is 360
  zeros. The slice assignments \<^verbatim>\<open>a[180:] = v\<close> and \<^verbatim>\<open>a[:180] = v\<close> follow NumPy's
  broadcasting: a value of the slice's length is copied, a value of length one is
  repeated over the slice, any other length raises \<^verbatim>\<open>ValueError\<close>.
\<close>

definition np_zeros :: "nat \<Rightarrow> real list" where
  "np_zeros n = replicate n 0"

definition broadcast_to :: "nat \<Rightarrow> real list \<Rightarrow> error + real list" where
  "broadcast_to n v =
     (if length v = n then Inr v
      else if length v = 1 then Inr (replicate n (hd v))
      else Inl (ValueError ''could not broadcast input array''))"

definition set_slice :: "real list \<Rightarrow> nat \<Rightarrow> nat \<Rightarrow> real list \<Rightarrow> error + real list" where
  "set_slice a lo hi v =
     (case broadcast_to (hi - lo) v of
        Inl e \<Rightarrow> Inl e
      | Inr w \<Rightarrow> Inr (take lo a @ w @ drop hi a))"

definition map_unilateral_to_bilateral :: "real list \<Rightarrow> string option \<Rightarrow> error + real list" where
  "map_unilateral_to_bilateral pscalars hemisphere =
     (case check_hemisphere hemisphere of
        Inl e \<Rightarrow> Inl e
      | Inr hemi \<Rightarrow>
          if hemi = None then Inr pscalars
          else let pscalars_lr = np_zeros 360 in
            if hemi = Some ''right'' then set_slice pscalars_lr 180 360 pscalars
            else if hemi = Some ''left'' then set_slice pscalars_lr 0 180 pscalars
            else Inr pscalars_lr)"

subsection \<open>Shape validation\<close>

text \<open>
  The validators receive any Python object. An object whose type is exactly
  \<^verbatim>\<open>numpy.ndarray\<close> has a buffer and a shape; \<^verbatim>\<open>ndim\<close> is the length of the shape and
  \<^verbatim>\<open>size\<close> the product of its entries. The buffer is an address into a store of
  buffers (see the dense image writer below).
\<close>

record ndarray =
  buf :: nat
  shape :: "nat list"

datatype pyobject = Ndarray ndarray | NotNdarray

definition ndim :: "ndarray \<Rightarrow> nat" where
  "ndim a = length (shape a)"

definition size_of :: "ndarray \<Rightarrow> nat" where
  "size_of a = prod_list (shape a)"

definition check_pscalars_unilateral :: "pyobject \<Rightarrow> error + unit" where
  "check_pscalars_unilateral pscalars =
     (case pscalars of
        NotNdarray \<Rightarrow> Inl (RuntimeError ''pscalars must be a NumPy array'')
      | Ndarray a \<Rightarrow>
          if ndim a \<noteq> 1 then Inl (RuntimeError ''pscalars must be one-dimensional'')
          else if size_of a \<noteq> 180 then Inl (RuntimeError ''unilateral pscalars must be length 180'')
          else Inr ())"

definition check_dscalars :: "pyobject \<Rightarrow> error + unit" where
  "check_dscalars dscalars =
     (case dscalars of
        NotNdarray \<Rightarrow> Inl (RuntimeError ''dscalars must be a NumPy array'')
      | Ndarray a \<Rightarrow>
          if ndim a \<noteq> 1 then Inl (RuntimeError ''dscalars must be one-dimensional'')
          else if size_of a \<noteq> 91282 then Inl (RuntimeError ''bilateral dscalars must be length 91282'')
          else Inr ())"


subsection \<open>Numbers, colours and XML elements\<close>

text \<open>
  A number a mappable returns is a Python \<^verbatim>\<open>int\<close> or \<^verbatim>\<open>float\<close>; an element of an RGBA
  array is an \<^verbatim>\<open>int64\<close> or a \<^verbatim>\<open>float64\<close>. A colormap gives a row of four floats; a row
  of the array \<^verbatim>\<open>colors\<close> is \<open>(red, green, blue, alpha)\<close> in the array's element type.
  An XML element has a tag, its attributes in insertion order and its children.
\<close>

datatype pynum = PyInt int | PyFloat real

type_synonym frow = "real \<times> real \<times> real \<times> real"

type_synonym rgba = "pynum \<times> pynum \<times> pynum \<times> pynum"

datatype xml = Element (tag: string) (attrib: "(string \<times> string) list") (children: "xml list")

subsection \<open>Functions of other modules\<close>

text \<open>
  The functions the module calls whose code is not part of it, and the two path
  constants of \<^verbatim>\<open>wbplot.constants\<close>:
  \<^item> \<^verbatim>\<open>plots.check_cmap\<close> and \<^verbatim>\<open>plots.check_vrange\<close> return the checked argument or raise;
  \<^item> \<^verbatim>\<open>cm.get_cmap(name)\<close> gives the colormap of that name, a function from a scalar to a
    row of floats, or raises;
  \<^item> \<^verbatim>\<open>str\<close> on an array element, \<^verbatim>\<open>eT.fromstring\<close>, \<^verbatim>\<open>eT.tostring\<close>;
  \<^item> the paths at which \<^verbatim>\<open>nib.save\<close> can write a file.
\<close>

record externals =
  plots_check_cmap :: "string option \<Rightarrow> error + string"
  plots_check_vrange :: "(real \<times> real) option \<Rightarrow> error + (real \<times> real) option"
  cm_get_cmap :: "string \<Rightarrow> error + (real \<Rightarrow> frow)"
  py_str :: "pynum \<Rightarrow> string"
  eT_fromstring :: "string \<Rightarrow> error + xml"
  eT_tostring :: "xml \<Rightarrow> string"
  writable_path :: "string \<Rightarrow> bool"
  DLABEL_FILE :: string
  DSCALAR_FILE :: string

subsection \<open>Image files\<close>

text \<open>
  A NIFTI-2 image has a payload with its shape, an affine and a header; the header
  has a list of extensions. A nibabel extension object keeps its payload in the
  attribute \<^verbatim>\<open>_content\<close>: \<^verbatim>\<open>get_content()\<close> returns it and writing the image writes it.
  Any other attribute assigned to the object, such as \<^verbatim>\<open>content\<close>, is kept on the
  object and is neither returned by \<^verbatim>\<open>get_content()\<close> nor written to a file.

  The file system maps a path to the image stored there. \<^verbatim>\<open>nib.load\<close> raises for a path
  with no file. \<^verbatim>\<open>nib.save\<close> raises for a path it cannot write; otherwise it stores the
  image at the path, each extension with its payload only.
\<close>

record extension =
  ext_payload :: string
  ext_content :: "string option"

record nifti_header =
  extensions :: "extension list"

record image =
  img_data :: "real list"
  img_shape :: "nat list"
  img_affine :: "real list"
  img_header :: nifti_header

type_synonym filesystem = "string \<rightharpoonup> image"

definition nib_load :: "filesystem \<Rightarrow> string \<Rightarrow> error + image" where
  "nib_load fs path =
     (case fs path of None \<Rightarrow> Inl (FileNotFoundError path) | Some img \<Rightarrow> Inr img)"

definition written_header :: "nifti_header \<Rightarrow> nifti_header" where
  "written_header h = h\<lparr>extensions := map (\<lambda>x. x\<lparr>ext_content := None\<rparr>) (extensions h)\<rparr>"

definition nib_save :: "externals \<Rightarrow> image \<Rightarrow> string \<Rightarrow> filesystem \<Rightarrow> error + filesystem" where
  "nib_save E img path fs =
     (if writable_path E path
      then Inr (fs(path \<mapsto> img\<lparr>img_header := written_header (img_header img)\<rparr>))
      else Inl (OSError path))"

subsection \<open>XML elements\<close>

text \<open>
  \<^verbatim>\<open>e[i]\<close> raises \<^verbatim>\<open>IndexError\<close> when the element has no child \<open>i\<close>. \<open>descend e p\<close> is
  \<^verbatim>\<open>e[p0][p1]...\<close>. The tree is mutated in place through such a path: \<open>modify_at p f e\<close> is
  the tree \<open>e\<close> after the element at path \<open>p\<close> was changed by \<open>f\<close>. \<^verbatim>\<open>Element.set\<close>
  assigns to the attribute dictionary: an existing key keeps its place, a new key
  goes last.
\<close>

definition getitem :: "xml \<Rightarrow> nat \<Rightarrow> error + xml" where
  "getitem e i =
     (if i < length (children e) then Inr (children e ! i)
      else Inl (IndexError ''child index out of range''))"

fun descend :: "xml \<Rightarrow> nat list \<Rightarrow> error + xml" where
  "descend e [] = Inr e"
| "descend e (i # p) = (case getitem e i of Inl err \<Rightarrow> Inl err | Inr c \<Rightarrow> descend c p)"

fun modify_at :: "nat list \<Rightarrow> (xml \<Rightarrow> xml) \<Rightarrow> xml \<Rightarrow> xml" where
  "modify_at [] f e = f e"
| "modify_at (i # p) f e =
     Element (tag e) (attrib e) ((children e)[i := modify_at p f (children e ! i)])"

definition element_set :: "string \<Rightarrow> string \<Rightarrow> xml \<Rightarrow> xml" where
  "element_set key v e = Element (tag e) (AList.update key v (attrib e)) (children e)"

subsection \<open>The class Cifti\<close>

record cifti =
  self_data :: "real list"
  self_shape :: "nat list"
  self_affine :: "real list"
  self_header :: nifti_header
  self_extensions :: xml
  self_vrange :: "(real \<times> real) option"
  self_ischanged :: bool

text \<open>
  \<^verbatim>\<open>Cifti.__init__\<close>: load the file, keep its payload, affine and header, parse what
  \<^verbatim>\<open>get_content()\<close> returns for the header's first extension; \<^verbatim>\<open>vrange\<close> is \<^verbatim>\<open>None\<close> and
  \<^verbatim>\<open>ischanged\<close> is \<^verbatim>\<open>False\<close>.
\<close>

definition get_content :: "extension \<Rightarrow> string" where
  "get_content x = ext_payload x"

definition Cifti_init :: "externals \<Rightarrow> filesystem \<Rightarrow> string \<Rightarrow> error + cifti" where
  "Cifti_init E fs image_file =
     (case nib_load fs image_file of
        Inl e \<Rightarrow> Inl e
      | Inr of_img \<Rightarrow>
          (case extensions (img_header of_img) of
             [] \<Rightarrow> Inl (IndexError ''list index out of range'')
           | x # _ \<Rightarrow>
               (case eT_fromstring E (get_content x) of
                  Inl e \<Rightarrow> Inl e
                | Inr tree \<Rightarrow>
                    Inr \<lparr>self_data = img_data of_img, self_shape = img_shape of_img,
                         self_affine = img_affine of_img, self_header = img_header of_img,
                         self_extensions = tree, self_vrange = None,
                         self_ischanged = False\<rparr>)))"

text \<open>
  \<^verbatim>\<open>np.min\<close> and \<^verbatim>\<open>np.max\<close> raise \<^verbatim>\<open>ValueError\<close> on an empty array.
\<close>

definition np_min :: "real list \<Rightarrow> error + real" where
  "np_min xs =
     (case xs of
        [] \<Rightarrow> Inl (ValueError ''zero-size array to reduction operation minimum which has no identity'')
      | x # r \<Rightarrow> Inr (fold min r x))"

definition np_max :: "real list \<Rightarrow> error + real" where
  "np_max xs =
     (case xs of
        [] \<Rightarrow> Inl (ValueError ''zero-size array to reduction operation maximum which has no identity'')
      | x # r \<Rightarrow> Inr (fold max r x))"

text \<open>
  The array \<^verbatim>\<open>colors\<close> before the override. It has an element type and rows of four
  elements, or it is the one-dimensional empty array that \<^verbatim>\<open>np.array([])\<close> gives.

  \<^verbatim>\<open>np.array\<close> on the list of rows a mappable returned: the empty list gives the
  one-dimensional empty array; rows of Python ints only give an \<^verbatim>\<open>int64\<close> array; any
  float among them gives a \<^verbatim>\<open>float64\<close> array, the ints converted. An assignment into
  an array converts the assigned floats to the array's element type; the conversion
  to \<^verbatim>\<open>int64\<close> drops the fraction.
\<close>

datatype dtype = int64 | float64

datatype color_array = Array2D dtype "rgba list" | Array1D

definition is_int :: "pynum \<Rightarrow> bool" where
  "is_int x = (case x of PyInt i \<Rightarrow> True | PyFloat r \<Rightarrow> False)"

definition to_float :: "pynum \<Rightarrow> real" where
  "to_float x = (case x of PyInt i \<Rightarrow> real_of_int i | PyFloat r \<Rightarrow> r)"

definition int_row :: "rgba \<Rightarrow> bool" where
  "int_row c = (case c of (r, g, b, a) \<Rightarrow> is_int r \<and> is_int g \<and> is_int b \<and> is_int a)"

definition as_float_row :: "rgba \<Rightarrow> rgba" where
  "as_float_row c =
     (case c of (r, g, b, a) \<Rightarrow>
        (PyFloat (to_float r), PyFloat (to_float g), PyFloat (to_float b), PyFloat (to_float a)))"

definition np_array_rows :: "rgba list \<Rightarrow> color_array" where
  "np_array_rows rows =
     (if rows = [] then Array1D
      else if list_all int_row rows then Array2D int64 rows
      else Array2D float64 (map as_float_row rows))"

definition trunc :: "real \<Rightarrow> int" where
  "trunc x = (if 0 \<le> x then \<lfloor>x\<rfloor> else \<lceil>x\<rceil>)"

definition astype :: "dtype \<Rightarrow> real \<Rightarrow> pynum" where
  "astype dt x = (case dt of int64 \<Rightarrow> PyInt (trunc x) | float64 \<Rightarrow> PyFloat x)"

definition cast_row :: "dtype \<Rightarrow> frow \<Rightarrow> rgba" where
  "cast_row dt c = (case c of (r, g, b, a) \<Rightarrow> (astype dt r, astype dt g, astype dt b, astype dt a))"

text \<open>
  \<^verbatim>\<open>clrs.Normalize(vmin, vmax)\<close> applied to an array, with the default \<^verbatim>\<open>clip=False\<close>:
  all zeros when \<open>vmin = vmax\<close>, \<^verbatim>\<open>ValueError\<close> when \<open>vmin > vmax\<close>, and otherwise
  \<open>(x - vmin) / (vmax - vmin)\<close> for each element \<open>x\<close>, also for an \<open>x\<close> outside the range.

  \<open>linear_norm vmin vmax\<close> is the value it gives for one element when \<open>vmin \<le> vmax\<close>.

  \<^verbatim>\<open>ScalarMappable(cmap, norm).to_rgba(data)\<close>: the colormap is resolved when the
  mappable is built; the data are normalized and each normalized scalar is looked up
  in the colormap, which gives a \<^verbatim>\<open>float64\<close> array of shape \<open>(n, 4)\<close>.
\<close>

definition clrs_Normalize :: "real \<Rightarrow> real \<Rightarrow> real list \<Rightarrow> error + real list" where
  "clrs_Normalize vmin vmax xs =
     (if vmin = vmax then Inr (map (\<lambda>x. 0) xs)
      else if vmax < vmin then Inl (ValueError ''minvalue must be less than or equal to maxvalue'')
      else Inr (map (\<lambda>x. (x - vmin) / (vmax - vmin)) xs))"

definition linear_norm :: "real \<Rightarrow> real \<Rightarrow> real \<Rightarrow> real" where
  "linear_norm vmin vmax x = (if vmin = vmax then 0 else (x - vmin) / (vmax - vmin))"

definition to_rgba :: "externals \<Rightarrow> string \<Rightarrow> real \<times> real \<Rightarrow> real list \<Rightarrow> error + color_array" where
  "to_rgba E cmap r dat =
     (case cm_get_cmap E cmap of
        Inl e \<Rightarrow> Inl e
      | Inr cm \<Rightarrow>
          (case clrs_Normalize (fst r) (snd r) dat of
             Inl e \<Rightarrow> Inl e
           | Inr xs \<Rightarrow> Inr (Array2D float64 (map (\<lambda>x. cast_row float64 (cm x)) xs))))"

text \<open>
  Lines 215-222, \<^emph>\<open>map data to colors\<close>. Without a mappable the range is stored in
  \<^verbatim>\<open>self.vrange\<close> before the colours are computed, so it stays stored when the colour
  computation raises. A mappable is a total function from a scalar to a row of four
  numbers.
\<close>

definition data_range :: "real list \<Rightarrow> (real \<times> real) option \<Rightarrow> error + real \<times> real" where
  "data_range dat vr =
     (case vr of
        None \<Rightarrow>
          (case np_min dat of
             Inl e \<Rightarrow> Inl e
           | Inr lo \<Rightarrow> (case np_max dat of Inl e \<Rightarrow> Inl e | Inr hi \<Rightarrow> Inr (lo, hi)))
      | Some r \<Rightarrow> Inr r)"

definition map_data_to_colors ::
  "externals \<Rightarrow> real list \<Rightarrow> string \<Rightarrow> (real \<times> real) option \<Rightarrow> (real \<Rightarrow> rgba) option \<Rightarrow> cifti
     \<Rightarrow> (error + color_array) \<times> cifti" where
  "map_data_to_colors E dat cmap vr mappable self =
     (case mappable of
        None \<Rightarrow>
          (case data_range dat vr of
             Inl e \<Rightarrow> (Inl e, self)
           | Inr r \<Rightarrow> (to_rgba E cmap r dat, self\<lparr>self_vrange := Some r\<rparr>))
      | Some m \<Rightarrow> (Inr (np_array_rows (map m dat)), self))"

text \<open>
  Lines 224-227, \<^emph>\<open>set zero values to grey\<close>. \<^verbatim>\<open>data == 0.0\<close> is the boolean mask of the
  zero entries, \<^verbatim>\<open>np.sum\<close> counts them, \<^verbatim>\<open>nullmap\<close> has one row \<^verbatim>\<open>greys(0.2 * 1.0)\<close> per
  zero entry. The masked assignment \<^verbatim>\<open>colors[data == 0.0, :] = nullmap\<close> raises
  \<^verbatim>\<open>IndexError\<close> for the one-dimensional empty array; for an array of rows it writes
  the rows of \<^verbatim>\<open>nullmap\<close>, converted to the element type of \<^verbatim>\<open>colors\<close>, in order, to the
  rows of \<^verbatim>\<open>colors\<close> where the mask holds. The result is the list of the rows of
  \<^verbatim>\<open>colors\<close> after the assignment. The mask and \<^verbatim>\<open>colors\<close> have the length of the data,
  and \<^verbatim>\<open>nullmap\<close> has as many rows as the mask has true entries, so the last equation of
  \<open>mask_assign\<close> is only reached at the end of the arrays.
\<close>

definition zero_mask :: "real list \<Rightarrow> bool list" where
  "zero_mask dat = map (\<lambda>d. d = 0) dat"

definition np_sum :: "bool list \<Rightarrow> nat" where
  "np_sum b = length (filter id b)"

definition np_ones :: "nat \<Rightarrow> real list" where
  "np_ones n = replicate n 1"

fun mask_assign :: "'a list \<Rightarrow> bool list \<Rightarrow> 'a list \<Rightarrow> 'a list" where
  "mask_assign (c # cs) (True # ms) (v # vs) = v # mask_assign cs ms vs"
| "mask_assign (c # cs) (False # ms) vs = c # mask_assign cs ms vs"
| "mask_assign cs ms vs = cs"

definition set_zero_to_grey :: "externals \<Rightarrow> real list \<Rightarrow> color_array \<Rightarrow> error + rgba list" where
  "set_zero_to_grey E dat colors =
     (case cm_get_cmap E ''Greys'' of
        Inl e \<Rightarrow> Inl e
      | Inr greys \<Rightarrow>
          let nullmap = map greys (map (\<lambda>x. 0.2 * x) (np_ones (np_sum (zero_mask dat))))
          in (case colors of
                Array1D \<Rightarrow> Inl (IndexError ''too many indices for array'')
              | Array2D dt rows \<Rightarrow>
                  Inr (mask_assign rows (zero_mask dat) (map (cast_row dt) nullmap))))"

text \<open>
  Lines 211-227 of \<^verbatim>\<open>Cifti.set_cmap\<close>: the two checks, the mapping and the grey
  override give the array \<^verbatim>\<open>colors\<close> that the loop then reads.
\<close>

definition set_cmap_colors ::
  "externals \<Rightarrow> real list \<Rightarrow> string option \<Rightarrow> (real \<times> real) option \<Rightarrow> (real \<Rightarrow> rgba) option \<Rightarrow> cifti
     \<Rightarrow> (error + rgba list) \<times> cifti" where
  "set_cmap_colors E dat cmap vrange mappable self =
     (case plots_check_cmap E cmap of
        Inl e \<Rightarrow> (Inl e, self)
      | Inr cmap' \<Rightarrow>
          (case plots_check_vrange E vrange of
             Inl e \<Rightarrow> (Inl e, self)
           | Inr vrange' \<Rightarrow>
               (case map_data_to_colors E dat cmap' vrange' mappable self of
                  (Inl e, self') \<Rightarrow> (Inl e, self')
                | (Inr colors, self') \<Rightarrow> (set_zero_to_grey E dat colors, self'))))"

text \<open>
  Lines 229-237, the loop over the label table \<^verbatim>\<open>self.extensions[0][1][0][1]\<close>. The
  range is computed once. In every round the entry \<open>ii\<close> exists; reading row \<open>ii - 1\<close>
  of \<^verbatim>\<open>colors\<close> raises \<^verbatim>\<open>IndexError\<close> when the array has no such row, which happens in
  the first of the four statements, before entry \<open>ii\<close> is touched. The entries changed
  in earlier rounds stay changed.
\<close>

definition label_path :: "nat list" where
  "label_path = [0, 1, 0, 1]"

definition set_label_color :: "externals \<Rightarrow> rgba \<Rightarrow> xml \<Rightarrow> xml" where
  "set_label_color E c e =
     (case c of (r, g, b, a) \<Rightarrow>
        element_set ''Alpha'' (py_str E a)
          (element_set ''Blue'' (py_str E b)
            (element_set ''Green'' (py_str E g)
              (element_set ''Red'' (py_str E r) e))))"

fun color_loop :: "externals \<Rightarrow> rgba list \<Rightarrow> nat list \<Rightarrow> xml \<Rightarrow> (error + unit) \<times> xml" where
  "color_loop E colors [] ext = (Inr (), ext)"
| "color_loop E colors (ii # rest) ext =
     (if ii - 1 < length colors
      then color_loop E colors rest
             (modify_at (label_path @ [ii]) (set_label_color E (colors ! (ii - 1))) ext)
      else (Inl (IndexError ''index is out of bounds for axis 0''), ext))"

definition set_cmap ::
  "externals \<Rightarrow> real list \<Rightarrow> string option \<Rightarrow> (real \<times> real) option \<Rightarrow> (real \<Rightarrow> rgba) option \<Rightarrow> cifti
     \<Rightarrow> (error + unit) \<times> cifti" where
  "set_cmap E dat cmap vrange mappable self =
     (case set_cmap_colors E dat cmap vrange mappable self of
        (Inl e, self') \<Rightarrow> (Inl e, self')
      | (Inr colors, self') \<Rightarrow>
          (case descend (self_extensions self') label_path of
             Inl e \<Rightarrow> (Inl e, self')
           | Inr table \<Rightarrow>
               (case color_loop E colors [1..<length (children table)] (self_extensions self') of
                  (Inl e, ext) \<Rightarrow> (Inl e, self'\<lparr>self_extensions := ext\<rparr>)
                | (Inr u, ext) \<Rightarrow>
                    (Inr (), self'\<lparr>self_extensions := ext, self_ischanged := True\<rparr>))))"

text \<open>
  \<^verbatim>\<open>write_extensions\<close> assigns the serialized tree to the attribute \<^verbatim>\<open>content\<close> of the
  header's first extension. \<^verbatim>\<open>save\<close> calls it when \<^verbatim>\<open>ischanged\<close> holds, then builds the
  image from the payload, the affine and the header and saves it at \<^verbatim>\<open>fout\<close>.
\<close>

definition write_extensions :: "externals \<Rightarrow> cifti \<Rightarrow> error + cifti" where
  "write_extensions E self =
     (case extensions (self_header self) of
        [] \<Rightarrow> Inl (IndexError ''list index out of range'')
      | x # others \<Rightarrow>
          Inr (self\<lparr>self_header := (self_header self)
                 \<lparr>extensions :=
                    x\<lparr>ext_content := Some (eT_tostring E (self_extensions self))\<rparr> # others\<rparr>\<rparr>))"

definition Nifti2Image :: "real list \<Rightarrow> nat list \<Rightarrow> real list \<Rightarrow> nifti_header \<Rightarrow> image" where
  "Nifti2Image d shp aff hdr = \<lparr>img_data = d, img_shape = shp, img_affine = aff, img_header = hdr\<rparr>"

definition save :: "externals \<Rightarrow> string \<Rightarrow> cifti \<Rightarrow> filesystem \<Rightarrow> (error + unit) \<times> cifti \<times> filesystem" where
  "save E fout self fs =
     (case (if self_ischanged self then write_extensions E self else Inr self) of
        Inl e \<Rightarrow> (Inl e, self, fs)
      | Inr self' \<Rightarrow>
          let new_img = Nifti2Image (self_data self') (self_shape self') (self_affine self')
                          (self_header self')
          in (case nib_save E new_img fout fs of
                Inl e \<Rightarrow> (Inl e, self', fs)
              | Inr fs' \<Rightarrow> (Inr (), self', fs')))"

subsection \<open>Writing a parcellated image\<close>

definition write_parcellated_image ::
  "externals \<Rightarrow> real list \<Rightarrow> string \<Rightarrow> string option \<Rightarrow> (real \<times> real) option \<Rightarrow> string option
     \<Rightarrow> filesystem \<Rightarrow> (error + unit) \<times> filesystem" where
  "write_parcellated_image E dat fout hemisphere vrange cmap fs =
     (case check_hemisphere hemisphere of
        Inl e \<Rightarrow> (Inl e, fs)
      | Inr _ \<Rightarrow>
          (case map_unilateral_to_bilateral dat hemisphere of
             Inl e \<Rightarrow> (Inl e, fs)
           | Inr pscalars_lr \<Rightarrow>
               (case Cifti_init E fs (DLABEL_FILE E) of
                  Inl e \<Rightarrow> (Inl e, fs)
                | Inr c \<Rightarrow>
                    (case set_cmap E pscalars_lr cmap vrange None c of
                       (Inl e, c') \<Rightarrow> (Inl e, fs)
                     | (Inr u, c') \<Rightarrow>
                         (case save E fout c' fs of (r, c'', fs') \<Rightarrow> (r, fs'))))))"

subsection \<open>Writing a dense image\<close>

text \<open>
  Here arrays are references: an \<^typ>\<open>ndarray\<close> names a buffer of the store by its
  address, and two arrays with the same address share their elements. \<^verbatim>\<open>np.copy\<close>
  allocates a new buffer with the elements of its argument; \<^verbatim>\<open>reshape\<close> gives a view,
  an array on the same buffer with the new shape, and raises when the sizes differ.
  \<^verbatim>\<open>fout[-12:]\<close> is the last twelve characters of \<^verbatim>\<open>fout\<close>, or all of it when it is
  shorter.

  \<^verbatim>\<open>os.path.join(a, b)\<close> on a POSIX system: \<open>b\<close> alone when \<open>b\<close> starts with \<^verbatim>\<open>/\<close>;
  otherwise \<open>a\<close> followed by \<open>b\<close>, with a \<^verbatim>\<open>/\<close> between them unless \<open>a\<close> is empty or
  ends with one.
\<close>

type_synonym store = "real list list"

definition np_copy :: "ndarray \<Rightarrow> store \<Rightarrow> ndarray \<times> store" where
  "np_copy a st = (\<lparr>buf = length st, shape = shape a\<rparr>, st @ [st ! buf a])"

definition np_array :: "real list \<Rightarrow> nat list \<Rightarrow> store \<Rightarrow> ndarray \<times> store" where
  "np_array d shp st = (\<lparr>buf = length st, shape = shp\<rparr>, st @ [d])"

definition reshape :: "ndarray \<Rightarrow> nat list \<Rightarrow> error + ndarray" where
  "reshape a shp =
     (if prod_list shp = size_of a then Inr \<lparr>buf = buf a, shape = shp\<rparr>
      else Inl (ValueError ''cannot reshape array''))"

definition last_chars :: "nat \<Rightarrow> string \<Rightarrow> string" where
  "last_chars n s = drop (length s - n) s"

definition dscalar_name :: "string \<Rightarrow> string" where
  "dscalar_name fout =
     (if last_chars 12 fout \<noteq> ''.dscalar.nii'' then fout @ ''.dscalar.nii'' else fout)"

definition startswith_sep :: "string \<Rightarrow> bool" where
  "startswith_sep s = (take 1 s = ''/'')"

definition endswith_sep :: "string \<Rightarrow> bool" where
  "endswith_sep s = (last_chars 1 s = ''/'')"

definition os_path_join :: "string \<Rightarrow> string \<Rightarrow> string" where
  "os_path_join a b =
     (if startswith_sep b then b
      else if a = [] \<or> endswith_sep a then a @ b
      else a @ ''/'' @ b)"

definition write_dense_image ::
  "externals \<Rightarrow> pyobject \<Rightarrow> string \<Rightarrow> string \<Rightarrow> store \<times> filesystem
     \<Rightarrow> (error + unit) \<times> store \<times> filesystem" where
  "write_dense_image E dscalars fout savedir s =
     (case s of (st, fs) \<Rightarrow>
        (case check_dscalars dscalars of
           Inl e \<Rightarrow> (Inl e, st, fs)
         | Inr _ \<Rightarrow>
             (case dscalars of
                NotNdarray \<Rightarrow> (Inl (RuntimeError ''dscalars must be a NumPy array''), st, fs)
              | Ndarray a \<Rightarrow>
                  let fout' = dscalar_name fout;
                      (new_data, st1) = np_copy a st
                  in (case nib_load fs (DSCALAR_FILE E) of
                        Inl e \<Rightarrow> (Inl e, st1, fs)
                      | Inr of_img \<Rightarrow>
                          let (temp_data, st2) = np_array (img_data of_img) (img_shape of_img) st1
                          in (case reshape new_data (shape temp_data) of
                                Inl e \<Rightarrow> (Inl e, st2, fs)
                              | Inr data_to_write \<Rightarrow>
                                  let new_img = Nifti2Image (st2 ! buf data_to_write)
                                        (shape data_to_write) (img_affine of_img) (img_header of_img)
                                  in (case nib_save E new_img (os_path_join savedir fout') fs of
                                        Inl e \<Rightarrow> (Inl e, st2, fs)
                                      | Inr fs' \<Rightarrow> (Inr (), st2, fs')))))))"

subsection \<open>The loop's effect on the label table\<close>

text \<open>
  The children of the label table after the rounds \<open>is\<close> of the loop.
\<close>

definition patch_children :: "externals \<Rightarrow> rgba list \<Rightarrow> nat list \<Rightarrow> xml list \<Rightarrow> xml list" where
  "patch_children E colors is cs =
     fold (\<lambda>ii cs. cs[ii := set_label_color E (colors ! (ii - 1)) (cs ! ii)]) is cs"

subsection \<open>A small environment for evaluation\<close>

text \<open>
  Concrete externals, a label file whose table has the background entry and two
  parcels, and a dense template of the required size, to evaluate the operations.
  Every path is writable but \<^verbatim>\<open>/readonly/out.nii\<close>.
\<close>

definition demo_greys :: "real \<Rightarrow> frow" where
  "demo_greys x = (1 - x, 1 - x, 1 - x, 1)"

definition demo_gray :: "real \<Rightarrow> frow" where
  "demo_gray x = (x, x, x, 1)"

definition demo_str :: "pynum \<Rightarrow> string" where
  "demo_str x =
     (case x of
        PyInt i \<Rightarrow> (if i = 0 then ''0'' else if i = 1 then ''1'' else ''other'')
      | PyFloat r \<Rightarrow>
          (if r = 0 then ''0.0'' else if r = 1 then ''1.0'' else if r = 0.8 then ''0.8''
           else if r = 0.5 then ''0.5'' else ''other''))"

definition demo_label :: "string \<Rightarrow> xml" where
  "demo_label k =
     Element ''Label''
       [(''Key'', k), (''Red'', ''1.0''), (''Green'', ''1.0''), (''Blue'', ''1.0''), (''Alpha'', ''0.0'')] []"

definition demo_tree :: xml where
  "demo_tree =
     Element ''CIFTI'' []
       [Element ''Matrix'' []
          [Element ''MetaData'' [] [],
           Element ''MatrixIndicesMap'' []
             [Element ''NamedMap'' []
                [Element ''MapName'' [] [],
                 Element ''LabelTable'' [] [demo_label ''0'', demo_label ''1'', demo_label ''2'']]]]]"

definition demo_externals :: externals where
  "demo_externals =
     \<lparr>plots_check_cmap = (\<lambda>c. case c of None \<Rightarrow> Inr ''gray'' | Some n \<Rightarrow> Inr n),
      plots_check_vrange = Inr,
      cm_get_cmap = (\<lambda>n. if n = ''Greys'' then Inr demo_greys
                          else if n = ''gray'' then Inr demo_gray
                          else Inl (ValueError n)),
      py_str = demo_str,
      eT_fromstring = (\<lambda>s. if s = ''<CIFTI/>'' then Inr demo_tree else Inl (ValueError s)),
      eT_tostring = (\<lambda>t. if t = demo_tree then ''<CIFTI/>'' else ''<CIFTI>patched</CIFTI>''),
      writable_path = (\<lambda>p. p \<noteq> ''/readonly/out.nii''),
      DLABEL_FILE = ''template.dlabel.nii'',
      DSCALAR_FILE = ''template.dscalar.nii''\<rparr>"

definition demo_header :: nifti_header where
  "demo_header = \<lparr>extensions = [\<lparr>ext_payload = ''<CIFTI/>'', ext_content = None\<rparr>]\<rparr>"

definition demo_dlabel :: image where
  "demo_dlabel =
     \<lparr>img_data = [0, 1, 2], img_shape = [1, 3], img_affine = [], img_header = demo_header\<rparr>"

definition demo_dscalar :: image where
  "demo_dscalar =
     \<lparr>img_data = replicate 91282 0, img_shape = [1, 91282], img_affine = [],
      img_header = demo_header\<rparr>"

definition demo_cifti :: cifti where
  "demo_cifti =
     \<lparr>self_data = [0, 1, 2], self_shape = [1, 3], self_affine = [],
      self_header = demo_header,
      self_extensions = demo_tree, self_vrange = None, self_ischanged = False\<rparr>"

definition demo_fs :: filesystem where
  "demo_fs = [''template.dlabel.nii'' \<mapsto> demo_dlabel, ''template.dscalar.nii'' \<mapsto> demo_dscalar]"

section \<open>Properties\<close>

lemma check_hemisphere_cases:
  "check_hemisphere h =
     (if h \<in> {Some ''left'', Some ''l'', Some ''L''} then Inr (Some ''left'')
      else if h \<in> {Some ''right'', Some ''r'', Some ''R''} then Inr (Some ''right'')
      else if h \<in> {None, Some ''lr'', Some ''LR''} then Inr None
      else Inl (ValueError (format_hemisphere h @ '' if not a valid hemisphere'')))"
  by (auto simp: check_hemisphere_def options_def)


text \<open>
  C3. \<^verbatim>\<open>check_hemisphere\<close> returns \<^verbatim>\<open>'left'\<close> for \<^verbatim>\<open>'left'\<close>, \<^verbatim>\<open>'l'\<close>, \<^verbatim>\<open>'L'\<close>;
  \<^verbatim>\<open>'right'\<close> for \<^verbatim>\<open>'right'\<close>, \<^verbatim>\<open>'r'\<close>, \<^verbatim>\<open>'R'\<close>; \<^verbatim>\<open>None\<close> for \<^verbatim>\<open>None\<close>, \<^verbatim>\<open>'lr'\<close>,
  \<^verbatim>\<open>'LR'\<close>; every other string raises \<^verbatim>\<open>ValueError\<close>.
\<close>

theorem check_hemisphere_normalizes:
  "check_hemisphere (Some ''left'') = Inr (Some ''left'') \<and>
   check_hemisphere (Some ''l'') = Inr (Some ''left'') \<and>
   check_hemisphere (Some ''L'') = Inr (Some ''left'') \<and>
   check_hemisphere (Some ''right'') = Inr (Some ''right'') \<and>
   check_hemisphere (Some ''r'') = Inr (Some ''right'') \<and>
   check_hemisphere (Some ''R'') = Inr (Some ''right'') \<and>
   check_hemisphere None = Inr None \<and>
   check_hemisphere (Some ''lr'') = Inr None \<and>
   check_hemisphere (Some ''LR'') = Inr None \<and>
   (\<forall>h. h \<notin> {Some ''left'', Some ''l'', Some ''L'', Some ''right'', Some ''r'', Some ''R'',
                None, Some ''lr'', Some ''LR''}
        \<longrightarrow> (\<exists>msg. check_hemisphere h = Inl (ValueError msg)))"
  by (simp add: check_hemisphere_cases)

theorem check_hemisphere_normalizes_witness:
  "Some ''None'' \<notin> {Some ''left'', Some ''l'', Some ''L'', Some ''right'', Some ''r'', Some ''R'',
                None, Some ''lr'', Some ''LR''} \<and>
   (\<exists>msg. check_hemisphere (Some ''None'') = Inl (ValueError msg)) \<and>
   (\<exists>msg. check_hemisphere (Some ''Left'') = Inl (ValueError msg))"
proof -
  have a: "Some ''None'' \<notin> {Some ''left'', Some ''l'', Some ''L'', Some ''right'', Some ''r'',
             Some ''R'', None, Some ''lr'', Some ''LR''}"
    by simp
  have b: "Some ''Left'' \<notin> {Some ''left'', Some ''l'', Some ''L'', Some ''right'', Some ''r'',
             Some ''R'', None, Some ''lr'', Some ''LR''}"
    by simp
  note other = check_hemisphere_normalizes [THEN conjunct2, THEN conjunct2, THEN conjunct2,
      THEN conjunct2, THEN conjunct2, THEN conjunct2, THEN conjunct2, THEN conjunct2,
      THEN conjunct2, rule_format]
  from a other [OF a] other [OF b] show ?thesis by (intro conjI)
qed

text \<open>
  C5. \<^verbatim>\<open>check_pscalars_unilateral\<close> raises for an object that is not an ndarray, for
  an ndarray that is not one-dimensional and for one whose size is not 180; it returns
  \<^verbatim>\<open>None\<close> for every one-dimensional ndarray of size 180.
\<close>

theorem check_pscalars_unilateral_spec:
  "((x = NotNdarray \<or> (\<exists>a. x = Ndarray a \<and> (ndim a \<noteq> 1 \<or> size_of a \<noteq> 180)))
      \<longrightarrow> (\<exists>msg. check_pscalars_unilateral x = Inl (RuntimeError msg))) \<and>
   ((\<exists>a. x = Ndarray a \<and> ndim a = 1 \<and> size_of a = 180)
      \<longrightarrow> check_pscalars_unilateral x = Inr ())"
  by (cases x) (auto simp: check_pscalars_unilateral_def)

theorem check_pscalars_unilateral_spec_witness:
  "ndim \<lparr>buf = 0, shape = [180]\<rparr> = 1 \<and> size_of \<lparr>buf = 0, shape = [180]\<rparr> = 180 \<and>
   check_pscalars_unilateral (Ndarray \<lparr>buf = 0, shape = [180]\<rparr>) = Inr () \<and>
   size_of \<lparr>buf = 0, shape = [179]\<rparr> \<noteq> 180 \<and>
   (\<exists>msg. check_pscalars_unilateral (Ndarray \<lparr>buf = 0, shape = [179]\<rparr>) = Inl (RuntimeError msg)) \<and>
   ndim \<lparr>buf = 0, shape = [2, 90]\<rparr> \<noteq> 1 \<and>
   (\<exists>msg. check_pscalars_unilateral (Ndarray \<lparr>buf = 0, shape = [2, 90]\<rparr>) = Inl (RuntimeError msg)) \<and>
   (\<exists>msg. check_pscalars_unilateral NotNdarray = Inl (RuntimeError msg))"
proof -
  have a: "ndim \<lparr>buf = 0, shape = [180]\<rparr> = 1" "size_of \<lparr>buf = 0, shape = [180]\<rparr> = 180"
    by (simp_all add: ndim_def size_of_def)
  have b: "size_of \<lparr>buf = 0, shape = [179]\<rparr> \<noteq> 180"
    by (simp add: size_of_def)
  have c: "ndim \<lparr>buf = 0, shape = [2, 90]\<rparr> \<noteq> 1"
    by (simp add: ndim_def)
  show ?thesis
    using a b c
      check_pscalars_unilateral_spec [of "Ndarray \<lparr>buf = 0, shape = [180]\<rparr>"]
      check_pscalars_unilateral_spec [of "Ndarray \<lparr>buf = 0, shape = [179]\<rparr>"]
      check_pscalars_unilateral_spec [of "Ndarray \<lparr>buf = 0, shape = [2, 90]\<rparr>"]
      check_pscalars_unilateral_spec [of NotNdarray]
    by blast
qed

lemma set_slice_exact:
  "length v = hi - lo \<Longrightarrow> set_slice a lo hi v = Inr (take lo a @ v @ drop hi a)"
  by (simp add: set_slice_def broadcast_to_def)

lemma map_unilateral_left:
  "length v = 180 \<Longrightarrow> map_unilateral_to_bilateral v (Some ''left'') = Inr (v @ replicate 180 0)"
  by (simp add: map_unilateral_to_bilateral_def check_hemisphere_cases set_slice_exact np_zeros_def)

lemma map_unilateral_right:
  "length v = 180 \<Longrightarrow> map_unilateral_to_bilateral v (Some ''right'') = Inr (replicate 180 0 @ v)"
  by (simp add: map_unilateral_to_bilateral_def check_hemisphere_cases set_slice_exact np_zeros_def)

lemma map_unilateral_None:
  "map_unilateral_to_bilateral v None = Inr v"
  by (simp add: map_unilateral_to_bilateral_def check_hemisphere_cases)

text \<open>
  C2. For a vector \<open>v\<close> of length 180, padding with hemisphere \<^verbatim>\<open>'left'\<close> returns a
  vector of length 360 whose indices \<open>[0,180)\<close> are \<open>v\<close> and whose indices \<open>[180,360)\<close>
  are zero; \<^verbatim>\<open>'right'\<close> gives the mirrored vector; with hemisphere \<^verbatim>\<open>None\<close> the input
  comes back unchanged.
\<close>

theorem map_unilateral_to_bilateral_pads:
  "(length v = 180 \<longrightarrow>
      (\<exists>r. map_unilateral_to_bilateral v (Some ''left'') = Inr r \<and> length r = 360 \<and>
           (\<forall>i. i < 180 \<longrightarrow> r ! i = v ! i) \<and>
           (\<forall>i. 180 \<le> i \<and> i < 360 \<longrightarrow> r ! i = 0))) \<and>
   (length v = 180 \<longrightarrow>
      (\<exists>r. map_unilateral_to_bilateral v (Some ''right'') = Inr r \<and> length r = 360 \<and>
           (\<forall>i. i < 180 \<longrightarrow> r ! i = 0) \<and>
           (\<forall>i. 180 \<le> i \<and> i < 360 \<longrightarrow> r ! i = v ! (i - 180)))) \<and>
   map_unilateral_to_bilateral v None = Inr v"
  by (auto simp: map_unilateral_left map_unilateral_right map_unilateral_None nth_append)

theorem map_unilateral_to_bilateral_pads_witness:
  "length (replicate 180 (1::real)) = 180 \<and>
   (\<exists>r. map_unilateral_to_bilateral (replicate 180 1) (Some ''left'') = Inr r \<and> length r = 360 \<and>
        r ! 0 = 1 \<and> r ! 179 = 1 \<and> r ! 180 = 0 \<and> r ! 359 = 0) \<and>
   (\<exists>r. map_unilateral_to_bilateral (replicate 180 1) (Some ''right'') = Inr r \<and> length r = 360 \<and>
        r ! 0 = 0 \<and> r ! 179 = 0 \<and> r ! 180 = 1 \<and> r ! 359 = 1) \<and>
   map_unilateral_to_bilateral (replicate 180 1) None = Inr (replicate 180 1)"
proof -
  have len: "length (replicate 180 (1::real)) = 180" by simp
  from map_unilateral_to_bilateral_pads [of "replicate 180 1"] len
  obtain r where r: "map_unilateral_to_bilateral (replicate 180 1) (Some ''left'') = Inr r"
      "length r = 360" "\<forall>i. i < 180 \<longrightarrow> r ! i = replicate 180 (1::real) ! i"
      "\<forall>i. 180 \<le> i \<and> i < 360 \<longrightarrow> r ! i = 0"
    by blast
  from map_unilateral_to_bilateral_pads [of "replicate 180 1"] len
  obtain q where q: "map_unilateral_to_bilateral (replicate 180 1) (Some ''right'') = Inr q"
      "length q = 360" "\<forall>i. i < 180 \<longrightarrow> q ! i = 0"
      "\<forall>i. 180 \<le> i \<and> i < 360 \<longrightarrow> q ! i = replicate 180 (1::real) ! (i - 180)"
    by blast
  have rv: "r ! 0 = 1" "r ! 179 = 1" "r ! 180 = 0" "r ! 359 = 0"
    using r(3,4) by simp_all
  have qv: "q ! 0 = 0" "q ! 179 = 0" "q ! 180 = 1" "q ! 359 = 1"
    using q(3,4) by simp_all
  have left: "\<exists>r. map_unilateral_to_bilateral (replicate 180 1) (Some ''left'') = Inr r \<and>
      length r = 360 \<and> r ! 0 = 1 \<and> r ! 179 = 1 \<and> r ! 180 = 0 \<and> r ! 359 = 0"
    using r(1,2) rv by (intro exI [of _ r] conjI)
  have right: "\<exists>r. map_unilateral_to_bilateral (replicate 180 1) (Some ''right'') = Inr r \<and>
      length r = 360 \<and> r ! 0 = 0 \<and> r ! 179 = 0 \<and> r ! 180 = 1 \<and> r ! 359 = 1"
    using q(1,2) qv by (intro exI [of _ q] conjI)
  note none = map_unilateral_to_bilateral_pads [of "replicate 180 1", THEN conjunct2, THEN conjunct2]
  from len left right none show ?thesis by (intro conjI)
qed


subsection \<open>Auxiliary facts about the colour array\<close>

lemma mask_assign_length: "length (mask_assign cs ms vs) = length cs"
  by (induction cs ms vs rule: mask_assign.induct) simp_all

lemma mask_assign_nth:
  "length ms = length cs \<Longrightarrow> length vs = length (filter id ms) \<Longrightarrow> \<forall>v \<in> set vs. v = g \<Longrightarrow>
   i < length cs \<Longrightarrow> mask_assign cs ms vs ! i = (if ms ! i then g else cs ! i)"
proof (induction cs ms vs arbitrary: i rule: mask_assign.induct)
  case (1 c cs ms v vs)
  then show ?case by (cases i) simp_all
next
  case (2 c cs ms vs)
  then show ?case by (cases i) simp_all
qed simp_all

lemma np_min_Min: "xs \<noteq> [] \<Longrightarrow> np_min xs = Inr (Min (set xs))"
proof (cases xs)
  case (Cons x r)
  then show ?thesis by (simp only: np_min_def Min.set_eq_fold list.case)
qed simp

lemma np_max_Max: "xs \<noteq> [] \<Longrightarrow> np_max xs = Inr (Max (set xs))"
proof (cases xs)
  case (Cons x r)
  then show ?thesis by (simp only: np_max_def Max.set_eq_fold list.case)
qed simp

lemma set_zero_to_grey_all:
  assumes "cm_get_cmap E ''Greys'' = Inr greys" "length rows = length dat"
  shows "\<exists>cs. set_zero_to_grey E dat (Array2D dt rows) = Inr cs \<and> length cs = length dat \<and>
           (\<forall>i. i < length dat \<longrightarrow>
              cs ! i = (if dat ! i = 0 then cast_row dt (greys 0.2) else rows ! i))"
proof -
  define nullmap where
    "nullmap = map (cast_row dt)
       (map greys (map (\<lambda>x. 0.2 * x) (np_ones (np_sum (zero_mask dat)))))"
  have all: "\<forall>v \<in> set nullmap. v = cast_row dt (greys 0.2)"
    by (simp add: nullmap_def np_ones_def)
  have len: "length nullmap = length (filter id (zero_mask dat))"
    by (simp add: nullmap_def np_ones_def np_sum_def)
  have lm: "length (zero_mask dat) = length rows"
    using assms(2) by (simp add: zero_mask_def)
  have nth: "mask_assign rows (zero_mask dat) nullmap ! i
          = (if dat ! i = 0 then cast_row dt (greys 0.2) else rows ! i)" if "i < length dat" for i
  proof -
    have z: "zero_mask dat ! i = (dat ! i = 0)"
      using that by (simp add: zero_mask_def)
    have "mask_assign rows (zero_mask dat) nullmap ! i
          = (if zero_mask dat ! i then cast_row dt (greys 0.2) else rows ! i)"
      using lm len all assms(2) that by (intro mask_assign_nth) simp_all
    then show ?thesis by (simp only: z)
  qed
  have eq: "set_zero_to_grey E dat (Array2D dt rows) =
      Inr (mask_assign rows (zero_mask dat) nullmap)"
    unfolding set_zero_to_grey_def Let_def nullmap_def
    by (simp only: assms(1) sum.case color_array.case)
  have l: "length (mask_assign rows (zero_mask dat) nullmap) = length dat"
    by (simp only: mask_assign_length assms(2))
  from eq l nth show ?thesis by blast
qed

lemma set_zero_to_grey_flat:
  "\<exists>e. set_zero_to_grey E dat Array1D = Inl e"
  by (simp add: set_zero_to_grey_def Let_def split: sum.splits)

subsection \<open>Auxiliary facts about the label table\<close>

lemma descend_modify_at:
  "descend e p = Inr t \<Longrightarrow> descend (modify_at p f e) p = Inr (f t)"
proof (induction p arbitrary: e)
  case Nil
  then show ?case by simp
next
  case (Cons i p)
  then show ?case by (auto simp: getitem_def split: if_splits sum.splits)
qed

lemma modify_at_append: "modify_at (p @ q) f e = modify_at p (modify_at q f) e"
  by (induction p arbitrary: e) simp_all

lemma modify_at_child:
  "modify_at [ii] f t = Element (tag t) (attrib t) ((children t)[ii := f (children t ! ii)])"
  by simp

lemma patch_children_length: "length (patch_children E colors is cs) = length cs"
  unfolding patch_children_def by (induction "is" arbitrary: cs) simp_all

lemma patch_children_nth:
  "distinct is \<Longrightarrow> i < length cs \<Longrightarrow>
   patch_children E colors is cs ! i =
     (if i \<in> set is then set_label_color E (colors ! (i - 1)) (cs ! i) else cs ! i)"
  unfolding patch_children_def
proof (induction "is" arbitrary: cs)
  case Nil
  then show ?case by simp
next
  case (Cons a "is")
  then show ?case by (cases "i = a") auto
qed

lemma color_loop_ok:
  "descend ext label_path = Inr t \<Longrightarrow> \<forall>ii \<in> set is. ii - 1 < length colors \<Longrightarrow>
   \<exists>ext'. color_loop E colors is ext = (Inr (), ext') \<and>
     descend ext' label_path =
       Inr (Element (tag t) (attrib t) (patch_children E colors is (children t)))"
proof (induction "is" arbitrary: ext t)
  case Nil
  then show ?case by (simp add: patch_children_def)
next
  case (Cons ii "is")
  let ?f = "set_label_color E (colors ! (ii - 1))"
  let ?ext = "modify_at (label_path @ [ii]) ?f ext"
  let ?t = "Element (tag t) (attrib t) ((children t)[ii := ?f (children t ! ii)])"
  have "descend ?ext label_path = Inr ?t"
    using Cons.prems(1) by (simp only: modify_at_append descend_modify_at modify_at_child)
  from Cons.IH [OF this] Cons.prems(2)
  show ?case by (simp add: patch_children_def)
qed

lemma color_loop_Inr:
  "color_loop E colors is ext = (Inr u, ext') \<Longrightarrow> \<forall>ii \<in> set is. ii - 1 < length colors"
  by (induction "is" arbitrary: ext) (auto split: if_splits)

lemma color_loop_Inl_keeps_path:
  "descend ext label_path = Inr t \<Longrightarrow> color_loop E colors is ext = (r, ext') \<Longrightarrow>
   \<exists>t'. descend ext' label_path = Inr t'"
proof (induction "is" arbitrary: ext t)
  case Nil
  then show ?case by auto
next
  case (Cons ii "is")
  show ?case
  proof (cases "ii - 1 < length colors")
    case True
    have "descend (modify_at (label_path @ [ii]) (set_label_color E (colors ! (ii - 1))) ext) label_path
            = Inr (modify_at [ii] (set_label_color E (colors ! (ii - 1))) t)"
      using Cons.prems(1) by (simp only: modify_at_append descend_modify_at)
    from Cons.IH [OF this] Cons.prems(2) True show ?thesis by simp
  next
    case False
    with Cons.prems show ?thesis by auto
  qed
qed

lemma set_label_color_attrib:
  "map_of (attrib (set_label_color E (r, g, b, a) e)) =
     (map_of (attrib e))(''Red'' \<mapsto> py_str E r, ''Green'' \<mapsto> py_str E g,
        ''Blue'' \<mapsto> py_str E b, ''Alpha'' \<mapsto> py_str E a)"
  by (simp add: set_label_color_def element_set_def update_conv')

lemma set_label_color_frame:
  "tag (set_label_color E c e) = tag e" "children (set_label_color E c e) = children e"
  by (cases c; simp add: set_label_color_def element_set_def)+


subsection \<open>The colour array of set_cmap\<close>

lemma clrs_Normalize_linear:
  "vmin \<le> vmax \<Longrightarrow> clrs_Normalize vmin vmax xs = Inr (map (linear_norm vmin vmax) xs)"
  by (auto simp: clrs_Normalize_def linear_norm_def)




lemma map_data_to_colors_rows:
  "map_data_to_colors E dat cm vr mappable self = (Inr (Array2D dt rows), self') \<Longrightarrow>
   length rows = length dat"
  by (auto simp: map_data_to_colors_def to_rgba_def clrs_Normalize_def np_array_rows_def
      split: option.splits sum.splits if_splits)

lemma set_cmap_colors_Inr:
  "set_cmap_colors E dat cmap vrange mappable self = (Inr colors, self') \<Longrightarrow>
   \<exists>cm vr general. plots_check_cmap E cmap = Inr cm \<and> plots_check_vrange E vrange = Inr vr \<and>
     map_data_to_colors E dat cm vr mappable self = (Inr general, self') \<and>
     set_zero_to_grey E dat general = Inr colors"
  by (auto simp: set_cmap_colors_def split: sum.splits prod.splits)

lemma set_cmap_colors_rows:
  assumes "set_cmap_colors E dat cmap vrange mappable self = (Inr colors, self')"
    and "cm_get_cmap E ''Greys'' = Inr greys"
  shows "\<exists>cm vr dt rows.
     plots_check_cmap E cmap = Inr cm \<and> plots_check_vrange E vrange = Inr vr \<and>
     map_data_to_colors E dat cm vr mappable self = (Inr (Array2D dt rows), self') \<and>
     length colors = length dat \<and>
     (\<forall>i. i < length dat \<longrightarrow>
        colors ! i = (if dat ! i = 0 then cast_row dt (greys 0.2) else rows ! i))"
proof -
  from set_cmap_colors_Inr [OF assms(1)] obtain cm vr general where
    g: "plots_check_cmap E cmap = Inr cm" "plots_check_vrange E vrange = Inr vr"
       "map_data_to_colors E dat cm vr mappable self = (Inr general, self')"
       "set_zero_to_grey E dat general = Inr colors"
    by blast
  show ?thesis
  proof (cases general)
    case Array1D
    with g(4) set_zero_to_grey_flat [of E dat] show ?thesis by auto
  next
    case (Array2D dt rows)
    have len: "length rows = length dat"
      using g(3) unfolding Array2D by (rule map_data_to_colors_rows)
    from set_zero_to_grey_all [OF assms(2) len, of dt] g(4) Array2D
    have "length colors = length dat \<and>
      (\<forall>i. i < length dat \<longrightarrow>
        colors ! i = (if dat ! i = 0 then cast_row dt (greys 0.2) else rows ! i))"
      by auto
    with g(1,2,3) Array2D show ?thesis by blast
  qed
qed

lemmas demo_eval_defs =
  set_cmap_colors_def demo_externals_def map_data_to_colors_def data_range_def np_min_def
  np_max_def to_rgba_def clrs_Normalize_def set_zero_to_grey_def zero_mask_def np_sum_def
  np_ones_def demo_greys_def demo_gray_def np_array_rows_def int_row_def is_int_def
  as_float_row_def to_float_def cast_row_def astype_def trunc_def

text \<open>
  C1. Every position whose scalar is \<open>0.0\<close> should hold the colour \<^verbatim>\<open>Greys(0.2)\<close>, also
  when a mappable was supplied. With a mappable that returns rows of Python ints the
  array \<^verbatim>\<open>colors\<close> is an \<^verbatim>\<open>int64\<close> array and the override stores the grey converted to
  integers: the zero row is \<open>(0, 0, 0, 1)\<close>, not the grey. With the same mappable
  returning floats the zero row is the grey.
\<close>

theorem set_cmap_zero_row_of_int_mappable:
  "set_cmap_colors demo_externals [0, 2] None None
       (Some (\<lambda>d. (PyInt 1, PyInt 0, PyInt 0, PyInt 1))) demo_cifti =
     (Inr [(PyInt 0, PyInt 0, PyInt 0, PyInt 1), (PyInt 1, PyInt 0, PyInt 0, PyInt 1)], demo_cifti) \<and>
   cm_get_cmap demo_externals ''Greys'' = Inr demo_greys \<and>
   demo_greys 0.2 = (0.8, 0.8, 0.8, 1) \<and>
   (PyInt 0, PyInt 0, PyInt 0, PyInt 1) \<noteq> cast_row float64 (demo_greys 0.2) \<and>
   set_cmap_colors demo_externals [0, 2] None None
       (Some (\<lambda>d. (PyFloat 1, PyFloat 0, PyFloat 0, PyFloat 1))) demo_cifti =
     (Inr [cast_row float64 (demo_greys 0.2), (PyFloat 1, PyFloat 0, PyFloat 0, PyFloat 1)],
      demo_cifti)"
  by (simp add: demo_eval_defs)

subsection \<open>The range and the normalization\<close>

lemma data_range_None: "dat \<noteq> [] \<Longrightarrow> data_range dat None = Inr (Min (set dat), Max (set dat))"
  by (simp add: data_range_def np_min_Min np_max_Max)


lemma Min_le_Max_list: "dat \<noteq> [] \<Longrightarrow> Min (set dat) \<le> Max (set dat)"
  by (simp add: Min_le_iff)

lemma map_data_to_colors_linear:
  assumes "data_range dat vr = Inr (lo, hi)" "lo \<le> hi" "cm_get_cmap E cname = Inr cm"
  shows "map_data_to_colors E dat cname vr None self =
     (Inr (Array2D float64 (map (\<lambda>d. cast_row float64 (cm (linear_norm lo hi d))) dat)),
      self\<lparr>self_vrange := Some (lo, hi)\<rparr>)"
  using assms by (simp add: map_data_to_colors_def to_rgba_def clrs_Normalize_linear comp_def)

lemma set_cmap_colors_linear:
  assumes "plots_check_cmap E cmap = Inr cname" "plots_check_vrange E vrange = Inr vr"
    "data_range dat vr = Inr (lo, hi)" "lo \<le> hi" "cm_get_cmap E cname = Inr cm"
    "cm_get_cmap E ''Greys'' = Inr greys"
  shows "\<exists>colors. set_cmap_colors E dat cmap vrange None self =
            (Inr colors, self\<lparr>self_vrange := Some (lo, hi)\<rparr>) \<and> length colors = length dat \<and>
          (\<forall>i. i < length dat \<longrightarrow>
             colors ! i = (if dat ! i = 0 then cast_row float64 (greys 0.2)
                           else cast_row float64 (cm (linear_norm lo hi (dat ! i)))))"
proof -
  let ?general = "map (\<lambda>d. cast_row float64 (cm (linear_norm lo hi d))) dat"
  note m = map_data_to_colors_linear [OF assms(3,4,5), of self]
  have "length ?general = length dat" by simp
  from set_zero_to_grey_all [OF assms(6) this, of float64] obtain cs where
    cs: "set_zero_to_grey E dat (Array2D float64 ?general) = Inr cs" "length cs = length dat"
      "\<forall>i. i < length dat \<longrightarrow>
         cs ! i = (if dat ! i = 0 then cast_row float64 (greys 0.2) else ?general ! i)"
    by blast
  have "set_cmap_colors E dat cmap vrange None self = (Inr cs, self\<lparr>self_vrange := Some (lo, hi)\<rparr>)"
    using assms(1,2) m cs(1) by (simp add: set_cmap_colors_def)
  moreover have "\<forall>i. i < length dat \<longrightarrow>
             cs ! i = (if dat ! i = 0 then cast_row float64 (greys 0.2)
                       else cast_row float64 (cm (linear_norm lo hi (dat ! i))))"
    using cs(3) by simp
  ultimately show ?thesis using cs(2) by blast
qed




subsection \<open>The label table\<close>

lemma map_data_to_colors_frame:
  "map_data_to_colors E dat cm vr mappable self = (r, self') \<Longrightarrow>
   self_extensions self' = self_extensions self \<and> self_header self' = self_header self \<and>
   self_ischanged self' = self_ischanged self"
  by (auto simp: map_data_to_colors_def split: option.splits sum.splits)

lemma set_cmap_colors_frame:
  "set_cmap_colors E dat cmap vrange mappable self = (r, self') \<Longrightarrow>
   self_extensions self' = self_extensions self \<and> self_header self' = self_header self \<and>
   self_ischanged self' = self_ischanged self"
  by (auto simp: set_cmap_colors_def split: sum.splits prod.splits dest: map_data_to_colors_frame)

lemma set_cmap_Inr:
  assumes "set_cmap E dat cmap vrange mappable self = (Inr u, self')"
  shows "\<exists>colors self1 table ext.
     set_cmap_colors E dat cmap vrange mappable self = (Inr colors, self1) \<and>
     descend (self_extensions self1) label_path = Inr table \<and>
     color_loop E colors [1..<length (children table)] (self_extensions self1) = (Inr (), ext) \<and>
     self' = self1\<lparr>self_extensions := ext, self_ischanged := True\<rparr>"
  using assms by (auto simp: set_cmap_def split: sum.splits prod.splits)

text \<open>
  C7. A call of \<^verbatim>\<open>Cifti.set_cmap\<close> that returns leaves entry 0 of the label table as it
  was and, for every entry \<open>i \<ge> 1\<close>, sets the attributes \<^verbatim>\<open>Red\<close>, \<^verbatim>\<open>Green\<close>, \<^verbatim>\<open>Blue\<close> and
  \<^verbatim>\<open>Alpha\<close> to the strings of the four components of row \<open>i - 1\<close> of the colour array;
  the entry's tag, children and other attributes stay.
\<close>

theorem set_cmap_patches_labels:
  assumes "set_cmap E dat cmap vrange mappable self = (Inr (), self')"
  shows "\<exists>colors self1 table table'.
     set_cmap_colors E dat cmap vrange mappable self = (Inr colors, self1) \<and>
     descend (self_extensions self) label_path = Inr table \<and>
     descend (self_extensions self') label_path = Inr table' \<and>
     length (children table') = length (children table) \<and>
     (0 < length (children table) \<longrightarrow> children table' ! 0 = children table ! 0) \<and>
     (\<forall>i. 1 \<le> i \<and> i < length (children table) \<longrightarrow>
        i - 1 < length colors \<and>
        children table' ! i = set_label_color E (colors ! (i - 1)) (children table ! i) \<and>
        tag (children table' ! i) = tag (children table ! i) \<and>
        children (children table' ! i) = children (children table ! i) \<and>
        (case colors ! (i - 1) of (r, g, b, a) \<Rightarrow>
           map_of (attrib (children table' ! i)) =
             (map_of (attrib (children table ! i)))
               (''Red'' \<mapsto> py_str E r, ''Green'' \<mapsto> py_str E g,
                ''Blue'' \<mapsto> py_str E b, ''Alpha'' \<mapsto> py_str E a)))"
proof -
  from set_cmap_Inr [OF assms] obtain colors self1 table ext where
    s: "set_cmap_colors E dat cmap vrange mappable self = (Inr colors, self1)"
       "descend (self_extensions self1) label_path = Inr table"
       "color_loop E colors [1..<length (children table)] (self_extensions self1) = (Inr (), ext)"
       "self' = self1\<lparr>self_extensions := ext, self_ischanged := True\<rparr>"
    by blast
  let ?n = "length (children table)"
  let ?cs = "patch_children E colors [1..<?n] (children table)"
  let ?t' = "Element (tag table) (attrib table) ?cs"
  have ext1: "self_extensions self1 = self_extensions self"
    using set_cmap_colors_frame [OF s(1)] by simp
  have inr: "\<forall>ii \<in> set [1..<?n]. ii - 1 < length colors"
    using s(3) by (rule color_loop_Inr)
  from color_loop_ok [OF s(2) inr, of E] s(3)
  have d': "descend ext label_path = Inr ?t'" by simp
  have before: "descend (self_extensions self) label_path = Inr table"
    using s(2) ext1 by simp
  have after: "descend (self_extensions self') label_path = Inr ?t'"
    using d' s(4) by simp
  have len: "length (children ?t') = ?n"
    by (simp add: patch_children_length)
  have zero: "0 < ?n \<longrightarrow> children ?t' ! 0 = children table ! 0"
    by (simp add: patch_children_nth)
  have rest: "i - 1 < length colors \<and>
        children ?t' ! i = set_label_color E (colors ! (i - 1)) (children table ! i) \<and>
        tag (children ?t' ! i) = tag (children table ! i) \<and>
        children (children ?t' ! i) = children (children table ! i) \<and>
        (case colors ! (i - 1) of (r, g, b, a) \<Rightarrow>
           map_of (attrib (children ?t' ! i)) =
             (map_of (attrib (children table ! i)))
               (''Red'' \<mapsto> py_str E r, ''Green'' \<mapsto> py_str E g,
                ''Blue'' \<mapsto> py_str E b, ''Alpha'' \<mapsto> py_str E a))"
    if "1 \<le> i \<and> i < ?n" for i
  proof -
    have eq: "children ?t' ! i = set_label_color E (colors ! (i - 1)) (children table ! i)"
      using that by (simp add: patch_children_nth)
    have "i - 1 < length colors" using inr that by simp
    moreover have "case colors ! (i - 1) of (r, g, b, a) \<Rightarrow>
           map_of (attrib (children ?t' ! i)) =
             (map_of (attrib (children table ! i)))
               (''Red'' \<mapsto> py_str E r, ''Green'' \<mapsto> py_str E g,
                ''Blue'' \<mapsto> py_str E b, ''Alpha'' \<mapsto> py_str E a)"
      unfolding eq by (cases "colors ! (i - 1)") (simp only: prod.case set_label_color_attrib)
    ultimately show ?thesis
      using eq by (simp only: set_label_color_frame simp_thms)
  qed
  from s(1) before after len zero rest show ?thesis by blast
qed


lemmas demo_tree_defs =
  demo_cifti_def demo_tree_def demo_label_def label_path_def getitem_def set_label_color_def
  element_set_def demo_str_def

lemma demo_table:
  "descend (self_extensions demo_cifti) label_path =
     Inr (Element ''LabelTable'' [] [demo_label ''0'', demo_label ''1'', demo_label ''2''])"
  by (simp add: demo_cifti_def demo_tree_def label_path_def getitem_def)

lemma demo_colors:
  "set_cmap_colors demo_externals [0, 1] None None None demo_cifti =
     (Inr [(PyFloat 0.8, PyFloat 0.8, PyFloat 0.8, PyFloat 1),
           (PyFloat 1, PyFloat 1, PyFloat 1, PyFloat 1)],
      demo_cifti\<lparr>self_vrange := Some (0, 1)\<rparr>)"
  by (simp add: demo_eval_defs)

lemma demo_set_cmap_ok:
  "fst (set_cmap demo_externals [0, 1] None None None demo_cifti) = Inr ()"
  unfolding set_cmap_def demo_colors by (simp add: demo_tree_defs)

theorem set_cmap_patches_labels_witness:
  "\<exists>c' table'. set_cmap demo_externals [0, 1] None None None demo_cifti = (Inr (), c') \<and>
     descend (self_extensions c') label_path = Inr table' \<and>
     length (children table') = 3 \<and>
     children table' ! 0 = demo_label ''0'' \<and>
     map_of (attrib (children table' ! 1)) =
       (map_of (attrib (demo_label ''1'')))
         (''Red'' \<mapsto> ''0.8'', ''Green'' \<mapsto> ''0.8'', ''Blue'' \<mapsto> ''0.8'', ''Alpha'' \<mapsto> ''1.0'') \<and>
     map_of (attrib (children table' ! 2)) =
       (map_of (attrib (demo_label ''2'')))
         (''Red'' \<mapsto> ''1.0'', ''Green'' \<mapsto> ''1.0'', ''Blue'' \<mapsto> ''1.0'', ''Alpha'' \<mapsto> ''1.0'')"
proof -
  obtain c' where ok: "set_cmap demo_externals [0, 1] None None None demo_cifti = (Inr (), c')"
    using demo_set_cmap_ok by (cases "set_cmap demo_externals [0, 1] None None None demo_cifti") simp
  from set_cmap_patches_labels [OF ok] obtain colors self1 table table' where
    t: "set_cmap_colors demo_externals [0, 1] None None None demo_cifti = (Inr colors, self1)"
       "descend (self_extensions demo_cifti) label_path = Inr table"
       "descend (self_extensions c') label_path = Inr table'"
       "length (children table') = length (children table)"
       "0 < length (children table) \<longrightarrow> children table' ! 0 = children table ! 0"
       "\<forall>i. 1 \<le> i \<and> i < length (children table) \<longrightarrow>
          i - 1 < length colors \<and>
          children table' ! i = set_label_color demo_externals (colors ! (i - 1)) (children table ! i) \<and>
          tag (children table' ! i) = tag (children table ! i) \<and>
          children (children table' ! i) = children (children table ! i) \<and>
          (case colors ! (i - 1) of (r, g, b, a) \<Rightarrow>
             map_of (attrib (children table' ! i)) =
               (map_of (attrib (children table ! i)))
                 (''Red'' \<mapsto> py_str demo_externals r, ''Green'' \<mapsto> py_str demo_externals g,
                  ''Blue'' \<mapsto> py_str demo_externals b, ''Alpha'' \<mapsto> py_str demo_externals a))"
    by blast
  have colors: "colors = [(PyFloat 0.8, PyFloat 0.8, PyFloat 0.8, PyFloat 1),
      (PyFloat 1, PyFloat 1, PyFloat 1, PyFloat 1)]"
    using t(1) demo_colors by simp
  have table: "table = Element ''LabelTable'' [] [demo_label ''0'', demo_label ''1'', demo_label ''2'']"
    using t(2) demo_table by simp
  have str: "py_str demo_externals = demo_str"
    by (simp add: demo_externals_def)
  have l: "length (children table') = 3"
    using t(4) table by simp
  have z: "children table' ! 0 = demo_label ''0''"
    using t(5) table by simp
  have p1: "1 \<le> (1::nat) \<and> 1 < length (children table)"
    and p2: "1 \<le> (2::nat) \<and> 2 < length (children table)"
    by (simp_all add: table)
  have one: "map_of (attrib (children table' ! 1)) =
       (map_of (attrib (demo_label ''1'')))
         (''Red'' \<mapsto> ''0.8'', ''Green'' \<mapsto> ''0.8'', ''Blue'' \<mapsto> ''0.8'', ''Alpha'' \<mapsto> ''1.0'')"
    using t(6) [rule_format, of 1, OF p1, THEN conjunct2, THEN conjunct2, THEN conjunct2,
        THEN conjunct2]
    by (simp add: table colors str demo_str_def)
  have two: "map_of (attrib (children table' ! 2)) =
       (map_of (attrib (demo_label ''2'')))
         (''Red'' \<mapsto> ''1.0'', ''Green'' \<mapsto> ''1.0'', ''Blue'' \<mapsto> ''1.0'', ''Alpha'' \<mapsto> ''1.0'')"
    using t(6) [rule_format, of 2, OF p2, THEN conjunct2, THEN conjunct2, THEN conjunct2,
        THEN conjunct2]
    by (simp add: table colors str demo_str_def)
  from ok t(3) l z one two show ?thesis by blast
qed

subsection \<open>The dirty flag and save\<close>

lemma set_cmap_header:
  "set_cmap E dat cmap vrange mappable self = (r, self') \<Longrightarrow> self_header self' = self_header self"
  by (auto simp: set_cmap_def split: sum.splits prod.splits dest: set_cmap_colors_frame)

lemma save_payloads:
  assumes "save E fout c fs = (Inr u, c', fs')"
  shows "\<exists>img. fs' fout = Some img \<and>
           map ext_payload (extensions (img_header img)) =
           map ext_payload (extensions (self_header c))"
  using assms
  by (auto simp: save_def write_extensions_def nib_save_def Nifti2Image_def written_header_def
      Let_def comp_def split: if_splits sum.splits list.splits)

lemma save_succeeds:
  "extensions (self_header c) \<noteq> [] \<Longrightarrow> writable_path E fout \<Longrightarrow>
   fst (save E fout c fs) = Inr ()"
  by (cases "extensions (self_header c)")
     (simp_all add: save_def write_extensions_def nib_save_def Let_def)

lemma cifti_flag:
  "(Cifti_init E fs image_file = Inr c0 \<longrightarrow> \<not> self_ischanged c0) \<and>
   (set_cmap E dat cmap vrange mappable c = (Inr (), c') \<longrightarrow> self_ischanged c')"
proof (intro conjI impI)
  assume "Cifti_init E fs image_file = Inr c0"
  then show "\<not> self_ischanged c0"
    by (auto simp: Cifti_init_def split: sum.splits list.splits)
next
  assume "set_cmap E dat cmap vrange mappable c = (Inr (), c')"
  from set_cmap_Inr [OF this] show "self_ischanged c'" by auto
qed

lemma demo_patched:
  "self_ischanged (snd (set_cmap demo_externals [0, 1] None None None demo_cifti)) \<and>
   self_extensions (snd (set_cmap demo_externals [0, 1] None None None demo_cifti)) \<noteq> demo_tree"
  unfolding set_cmap_def demo_colors by (simp add: demo_tree_defs)

text \<open>
  C8. A Cifti object built by \<^verbatim>\<open>__init__\<close> has \<^verbatim>\<open>ischanged = False\<close> and a call of
  \<^verbatim>\<open>set_cmap\<close> that returns sets it to \<^verbatim>\<open>True\<close> (\<open>cifti_flag\<close>). \<^verbatim>\<open>save\<close> should then
  store the serialized tree as the content of the header's first extension. It
  assigns the attribute \<^verbatim>\<open>content\<close>, which is not the payload, so the saved image
  carries the payloads the header had (\<open>save_payloads\<close>): after \<^verbatim>\<open>set_cmap\<close> patched the
  tree, the file written by \<^verbatim>\<open>save\<close> still holds the template's XML.
\<close>

theorem save_keeps_template_table:
  "Cifti_init demo_externals demo_fs ''template.dlabel.nii'' = Inr demo_cifti \<and>
   fst (set_cmap demo_externals [0, 1] None None None demo_cifti) = Inr () \<and>
   self_ischanged (snd (set_cmap demo_externals [0, 1] None None None demo_cifti)) \<and>
   eT_tostring demo_externals
     (self_extensions (snd (set_cmap demo_externals [0, 1] None None None demo_cifti))) =
     ''<CIFTI>patched</CIFTI>'' \<and>
   fst (save demo_externals ''out.dlabel.nii''
          (snd (set_cmap demo_externals [0, 1] None None None demo_cifti)) demo_fs) = Inr () \<and>
   map_option (\<lambda>img. map ext_payload (extensions (img_header img)))
     (snd (snd (save demo_externals ''out.dlabel.nii''
          (snd (set_cmap demo_externals [0, 1] None None None demo_cifti)) demo_fs))
        ''out.dlabel.nii'') = Some [''<CIFTI/>'']"
proof -
  let ?c = "snd (set_cmap demo_externals [0, 1] None None None demo_cifti)"
  let ?s = "save demo_externals ''out.dlabel.nii'' ?c demo_fs"
  have init: "Cifti_init demo_externals demo_fs ''template.dlabel.nii'' = Inr demo_cifti"
    by (simp add: Cifti_init_def nib_load_def demo_fs_def demo_dlabel_def demo_externals_def
        demo_cifti_def demo_header_def get_content_def)
  have hdr: "self_header ?c = demo_header"
    using set_cmap_header [of demo_externals "[0, 1]" None None None demo_cifti "Inr ()" ?c]
      demo_set_cmap_ok
    by (cases "set_cmap demo_externals [0, 1] None None None demo_cifti")
       (simp add: demo_cifti_def)
  have str: "eT_tostring demo_externals (self_extensions ?c) = ''<CIFTI>patched</CIFTI>''"
    using demo_patched by (simp add: demo_externals_def)
  have ne: "extensions (self_header ?c) \<noteq> []"
    by (simp add: hdr demo_header_def)
  have wr: "writable_path demo_externals ''out.dlabel.nii''"
    by (simp add: demo_externals_def)
  have ok: "fst ?s = Inr ()"
    using ne wr by (rule save_succeeds)
  obtain c' fs' where s: "?s = (Inr (), c', fs')"
    using ok by (cases ?s) auto
  from save_payloads [OF s] hdr
  have "map_option (\<lambda>img. map ext_payload (extensions (img_header img))) (fs' ''out.dlabel.nii'')
          = Some [''<CIFTI/>'']"
    by (auto simp: demo_header_def)
  then have saved: "map_option (\<lambda>img. map ext_payload (extensions (img_header img)))
     (snd (snd ?s) ''out.dlabel.nii'') = Some [''<CIFTI/>'']"
    by (simp add: s)
  from init demo_set_cmap_ok demo_patched [THEN conjunct1] str ok saved
  show ?thesis by (intro conjI)
qed

subsection \<open>The dense image writer\<close>

lemma last_chars_append: "length e = n \<Longrightarrow> last_chars n (s @ e) = e"
  by (simp add: last_chars_def)

lemma dscalar_name_ends: "last_chars 12 (dscalar_name fout) = ''.dscalar.nii''"
proof (cases "last_chars 12 fout = ''.dscalar.nii''")
  case True
  then show ?thesis by (simp add: dscalar_name_def)
next
  case False
  have "last_chars 12 (fout @ ''.dscalar.nii'') = ''.dscalar.nii''"
    by (rule last_chars_append) simp
  with False show ?thesis by (simp add: dscalar_name_def)
qed

lemma startswith_sep_dscalar_name: "startswith_sep (dscalar_name fout) = startswith_sep fout"
  by (cases fout) (simp_all add: startswith_sep_def dscalar_name_def)

lemma write_dense_image_Inr:
  assumes "write_dense_image E dscalars fout savedir (st, fs) = (Inr u, st', fs')"
  shows "\<exists>a of_img. dscalars = Ndarray a \<and> ndim a = 1 \<and> size_of a = 91282 \<and>
     fs (DSCALAR_FILE E) = Some of_img \<and> prod_list (img_shape of_img) = 91282 \<and>
     writable_path E (os_path_join savedir (dscalar_name fout)) \<and>
     st' = st @ [st ! buf a, img_data of_img] \<and>
     fs' = fs(os_path_join savedir (dscalar_name fout) \<mapsto>
             Nifti2Image (st ! buf a) (img_shape of_img) (img_affine of_img)
               (written_header (img_header of_img)))"
  using assms
  by (auto simp: write_dense_image_def check_dscalars_def np_copy_def np_array_def reshape_def
      nib_load_def nib_save_def Nifti2Image_def size_of_def nth_append Let_def
      split: pyobject.splits sum.splits if_splits option.splits prod.splits)

lemma write_dense_image_store:
  assumes "write_dense_image E dscalars fout savedir (st, fs) = (r, st', fs')"
  shows "\<exists>new. st' = st @ new"
  using assms
  by (auto simp: write_dense_image_def check_dscalars_def np_copy_def np_array_def reshape_def
      nib_load_def nib_save_def Let_def
      split: pyobject.splits sum.splits if_splits option.splits prod.splits)

lemma demo_check_dscalars: "check_dscalars (Ndarray \<lparr>buf = 0, shape = [91282]\<rparr>) = Inr ()"
  by (simp add: check_dscalars_def ndim_def size_of_def)

lemma demo_np_copy: "np_copy \<lparr>buf = 0, shape = [91282]\<rparr> [replicate 91282 1] =
   (\<lparr>buf = 1, shape = [91282]\<rparr>, [replicate 91282 1, replicate 91282 1])"
  by (simp add: np_copy_def)

lemma demo_nib_load: "nib_load demo_fs (DSCALAR_FILE demo_externals) = Inr demo_dscalar"
  by (simp add: nib_load_def demo_fs_def demo_externals_def)

lemma demo_dense:
  assumes "dscalar_name fout = nm" "os_path_join ''/data'' nm = p" "p \<noteq> ''/readonly/out.nii''"
  shows "write_dense_image demo_externals (Ndarray \<lparr>buf = 0, shape = [91282]\<rparr>) fout ''/data''
     ([replicate 91282 1], demo_fs) =
   (Inr (), [replicate 91282 1, replicate 91282 1, replicate 91282 0],
    demo_fs(p \<mapsto>
      \<lparr>img_data = replicate 91282 1, img_shape = [1, 91282], img_affine = [],
       img_header = demo_header\<rparr>))"
proof -
  have t: "np_array (img_data demo_dscalar) (img_shape demo_dscalar)
             [replicate 91282 1, replicate 91282 1] =
           (\<lparr>buf = 2, shape = [1, 91282]\<rparr>,
            [replicate 91282 1, replicate 91282 1, replicate 91282 0])"
    by (simp add: np_array_def demo_dscalar_def)
  have n: "[replicate 91282 1, replicate 91282 1, replicate 91282 (0::real)] ! 1 = replicate 91282 1"
    by simp
  have h: "img_affine demo_dscalar = []" "img_header demo_dscalar = demo_header"
    by (simp_all add: demo_dscalar_def)
  have w: "written_header demo_header = demo_header"
    by (simp add: written_header_def demo_header_def)
  have s: "nib_save demo_externals img p fs = Inr (fs(p \<mapsto> img\<lparr>img_header := written_header (img_header img)\<rparr>))"
    for img fs
    using assms(3) by (simp add: nib_save_def demo_externals_def)
  show ?thesis
    unfolding write_dense_image_def
    by (simp add: demo_check_dscalars demo_np_copy demo_nib_load reshape_def size_of_def t n h w s
        assms(1,2) Nifti2Image_def)
qed

lemma demo_names:
  "dscalar_name ''map'' = ''map.dscalar.nii''"
  "dscalar_name ''/tmp/map'' = ''/tmp/map.dscalar.nii''"
  "os_path_join ''/data'' ''map.dscalar.nii'' = ''/data/map.dscalar.nii''"
  "os_path_join ''/data'' ''/tmp/map.dscalar.nii'' = ''/tmp/map.dscalar.nii''"
  by (simp_all add: dscalar_name_def last_chars_def os_path_join_def startswith_sep_def
      endswith_sep_def)

lemma demo_dense_map:
  "write_dense_image demo_externals (Ndarray \<lparr>buf = 0, shape = [91282]\<rparr>) ''map'' ''/data''
     ([replicate 91282 1], demo_fs) =
   (Inr (), [replicate 91282 1, replicate 91282 1, replicate 91282 0],
    demo_fs(''/data/map.dscalar.nii'' \<mapsto>
      \<lparr>img_data = replicate 91282 1, img_shape = [1, 91282], img_affine = [],
       img_header = demo_header\<rparr>))"
  by (rule demo_dense [OF demo_names(1) demo_names(3)]) simp


text \<open>
  C9 (amended). A call of \<^verbatim>\<open>write_dense_image\<close> that returns has written one file, at
  the path \<^verbatim>\<open>os.path.join(savedir, name)\<close>. The last twelve characters of the name are
  \<^verbatim>\<open>.dscalar.nii\<close>; the name is \<^verbatim>\<open>fout\<close> itself when the last twelve characters of
  \<^verbatim>\<open>fout\<close> are \<^verbatim>\<open>.dscalar.nii\<close>, and \<^verbatim>\<open>fout\<close> followed by \<^verbatim>\<open>.dscalar.nii\<close> otherwise. When
  \<^verbatim>\<open>fout\<close> does not start with \<^verbatim>\<open>/\<close> the path is \<^verbatim>\<open>savedir\<close>, a \<^verbatim>\<open>/\<close> unless \<^verbatim>\<open>savedir\<close> is
  empty or ends with one, and the name; when \<^verbatim>\<open>fout\<close> starts with \<^verbatim>\<open>/\<close> the path is the
  name alone.
\<close>

theorem write_dense_image_filename:
  "(write_dense_image E dscalars fout savedir (st, fs) = (Inr (), st', fs') \<longrightarrow>
      (\<exists>img. fs' = fs(os_path_join savedir (dscalar_name fout) \<mapsto> img))) \<and>
   last_chars 12 (dscalar_name fout) = ''.dscalar.nii'' \<and>
   (last_chars 12 fout = ''.dscalar.nii'' \<longrightarrow> dscalar_name fout = fout) \<and>
   (last_chars 12 fout \<noteq> ''.dscalar.nii'' \<longrightarrow> dscalar_name fout = fout @ ''.dscalar.nii'') \<and>
   (\<not> startswith_sep fout \<longrightarrow>
      os_path_join savedir (dscalar_name fout) =
        savedir @ (if savedir = [] \<or> endswith_sep savedir then [] else ''/'') @ dscalar_name fout) \<and>
   (startswith_sep fout \<longrightarrow> os_path_join savedir (dscalar_name fout) = dscalar_name fout)"
proof (intro conjI impI)
  assume "write_dense_image E dscalars fout savedir (st, fs) = (Inr (), st', fs')"
  from write_dense_image_Inr [OF this]
  show "\<exists>img. fs' = fs(os_path_join savedir (dscalar_name fout) \<mapsto> img)" by blast
next
  show "last_chars 12 (dscalar_name fout) = ''.dscalar.nii''" by (rule dscalar_name_ends)
next
  assume "last_chars 12 fout = ''.dscalar.nii''"
  then show "dscalar_name fout = fout" by (simp add: dscalar_name_def)
next
  assume "last_chars 12 fout \<noteq> ''.dscalar.nii''"
  then show "dscalar_name fout = fout @ ''.dscalar.nii''" by (simp add: dscalar_name_def)
next
  assume "\<not> startswith_sep fout"
  then show "os_path_join savedir (dscalar_name fout) =
        savedir @ (if savedir = [] \<or> endswith_sep savedir then [] else ''/'') @ dscalar_name fout"
    by (simp add: os_path_join_def startswith_sep_dscalar_name)
next
  assume "startswith_sep fout"
  then show "os_path_join savedir (dscalar_name fout) = dscalar_name fout"
    by (simp add: os_path_join_def startswith_sep_dscalar_name)
qed

theorem write_dense_image_filename_witness:
  "write_dense_image demo_externals (Ndarray \<lparr>buf = 0, shape = [91282]\<rparr>) ''map'' ''/data''
     ([replicate 91282 1], demo_fs) =
   (Inr (), [replicate 91282 1, replicate 91282 1, replicate 91282 0],
    demo_fs(''/data/map.dscalar.nii'' \<mapsto>
      \<lparr>img_data = replicate 91282 1, img_shape = [1, 91282], img_affine = [],
       img_header = demo_header\<rparr>)) \<and>
   (\<exists>img. demo_fs(''/data/map.dscalar.nii'' \<mapsto>
      \<lparr>img_data = replicate 91282 1, img_shape = [1, 91282], img_affine = [],
       img_header = demo_header\<rparr>) =
     demo_fs(os_path_join ''/data'' (dscalar_name ''map'') \<mapsto> img)) \<and>
   last_chars 12 ''map'' \<noteq> ''.dscalar.nii'' \<and>
   dscalar_name ''map'' = ''map.dscalar.nii'' \<and>
   last_chars 12 ''map.dscalar.nii'' = ''.dscalar.nii'' \<and>
   dscalar_name ''map.dscalar.nii'' = ''map.dscalar.nii'' \<and>
   \<not> startswith_sep ''map'' \<and>
   os_path_join ''/data'' (dscalar_name ''map'') = ''/data/map.dscalar.nii'' \<and>
   startswith_sep ''/tmp/map'' \<and>
   os_path_join ''/data'' (dscalar_name ''/tmp/map'') = dscalar_name ''/tmp/map''"
proof -
  have n1: "last_chars 12 ''map'' \<noteq> ''.dscalar.nii''"
    and n2: "last_chars 12 ''map.dscalar.nii'' = ''.dscalar.nii''"
    by (simp_all add: last_chars_def)
  have r1: "\<not> startswith_sep ''map''" and r2: "startswith_sep ''/tmp/map''"
    by (simp_all add: startswith_sep_def)
  have a: "\<exists>img. demo_fs(''/data/map.dscalar.nii'' \<mapsto>
      \<lparr>img_data = replicate 91282 1, img_shape = [1, 91282], img_affine = [],
       img_header = demo_header\<rparr>) =
     demo_fs(os_path_join ''/data'' (dscalar_name ''map'') \<mapsto> img)"
    by (rule write_dense_image_filename [THEN conjunct1, rule_format, OF demo_dense_map])
  have b: "dscalar_name ''map'' = ''map.dscalar.nii''"
    using write_dense_image_filename [where fout = "''map''", THEN conjunct2, THEN conjunct2,
        THEN conjunct2, THEN conjunct1, rule_format, OF n1]
    by simp
  have c: "dscalar_name ''map.dscalar.nii'' = ''map.dscalar.nii''"
    by (rule write_dense_image_filename [where fout = "''map.dscalar.nii''", THEN conjunct2,
        THEN conjunct2, THEN conjunct1, rule_format, OF n2])
  have d: "os_path_join ''/data'' (dscalar_name ''map'') = ''/data/map.dscalar.nii''"
    using write_dense_image_filename [where fout = "''map''" and savedir = "''/data''",
        THEN conjunct2, THEN conjunct2, THEN conjunct2, THEN conjunct2, THEN conjunct1,
        rule_format, OF r1]
    by (simp add: b endswith_sep_def last_chars_def)
  have e: "os_path_join ''/data'' (dscalar_name ''/tmp/map'') = dscalar_name ''/tmp/map''"
    by (rule write_dense_image_filename [where fout = "''/tmp/map''", THEN conjunct2,
        THEN conjunct2, THEN conjunct2, THEN conjunct2, THEN conjunct2, rule_format, OF r2])
  from demo_dense_map a n1 b n2 c r1 d r2 e show ?thesis by (intro conjI)
qed

text \<open>
  C9 as stated fails: with \<^verbatim>\<open>fout = '/tmp/map'\<close> and \<^verbatim>\<open>savedir = '/data'\<close> the call returns
  and the file is written at \<^verbatim>\<open>/tmp/map.dscalar.nii\<close>, which is not under \<^verbatim>\<open>/data\<close>.
\<close>

theorem write_dense_image_absolute_name:
  "write_dense_image demo_externals (Ndarray \<lparr>buf = 0, shape = [91282]\<rparr>) ''/tmp/map'' ''/data''
     ([replicate 91282 1], demo_fs) =
   (Inr (), [replicate 91282 1, replicate 91282 1, replicate 91282 0],
    demo_fs(''/tmp/map.dscalar.nii'' \<mapsto>
      \<lparr>img_data = replicate 91282 1, img_shape = [1, 91282], img_affine = [],
       img_header = demo_header\<rparr>)) \<and>
   os_path_join ''/data'' (dscalar_name ''/tmp/map'') = ''/tmp/map.dscalar.nii'' \<and>
   take (length ''/data'') ''/tmp/map.dscalar.nii'' \<noteq> ''/data''"
proof -
  have "write_dense_image demo_externals (Ndarray \<lparr>buf = 0, shape = [91282]\<rparr>) ''/tmp/map''
     ''/data'' ([replicate 91282 1], demo_fs) =
   (Inr (), [replicate 91282 1, replicate 91282 1, replicate 91282 0],
    demo_fs(''/tmp/map.dscalar.nii'' \<mapsto>
      \<lparr>img_data = replicate 91282 1, img_shape = [1, 91282], img_affine = [],
       img_header = demo_header\<rparr>))"
    by (rule demo_dense [OF demo_names(2) demo_names(4)]) simp
  moreover have "os_path_join ''/data'' (dscalar_name ''/tmp/map'') = ''/tmp/map.dscalar.nii''"
    by (simp add: demo_names)
  moreover have "take (length ''/data'') ''/tmp/map.dscalar.nii'' \<noteq> ''/data''"
    by simp
  ultimately show ?thesis by (intro conjI)
qed

text \<open>
  C10. \<^verbatim>\<open>write_dense_image\<close> only adds buffers to the store: whether it returns or
  raises, every buffer that existed before the call, the caller's array among them,
  holds the elements it held. When it returns, the data of the written file are those
  of the buffer allocated by \<^verbatim>\<open>np.copy\<close>, which is not the caller's buffer and holds the
  caller's elements.
\<close>

theorem write_dense_image_keeps_input:
  "write_dense_image E dscalars fout savedir (st, fs) = (r, st', fs') \<longrightarrow>
     take (length st) st' = st \<and>
     (\<forall>a. dscalars = Ndarray a \<and> buf a < length st \<longrightarrow>
        st' ! buf a = st ! buf a \<and>
        (r = Inr () \<longrightarrow>
           (\<exists>img. fs' (os_path_join savedir (dscalar_name fout)) = Some img \<and>
              img_data img = st' ! length st \<and> st' ! length st = st ! buf a \<and>
              length st \<noteq> buf a)))"
proof (intro impI conjI allI; (elim conjE)?)
  assume w: "write_dense_image E dscalars fout savedir (st, fs) = (r, st', fs')"
  from write_dense_image_store [OF w] obtain new where new: "st' = st @ new" by blast
  then show "take (length st) st' = st" by simp
  fix a
  assume a: "dscalars = Ndarray a" "buf a < length st"
  show "st' ! buf a = st ! buf a"
    using new a(2) by (simp add: nth_append)
  assume "r = Inr ()"
  with w have "write_dense_image E dscalars fout savedir (st, fs) = (Inr (), st', fs')" by simp
  from write_dense_image_Inr [OF this] obtain a' and of_img :: image where
    o': "dscalars = Ndarray a'" "st' = st @ [st ! buf a', img_data of_img]"
       "fs' = fs(os_path_join savedir (dscalar_name fout) \<mapsto>
             Nifti2Image (st ! buf a') (img_shape of_img) (img_affine of_img)
               (written_header (img_header of_img)))"
    by blast
  have "a' = a" using o'(1) a(1) by simp
  note o = o'(2,3) [unfolded this]
  have "st' ! length st = st ! buf a" using o(1) by simp
  moreover have "img_data (Nifti2Image (st ! buf a) (img_shape of_img) (img_affine of_img)
      (written_header (img_header of_img))) = st ! buf a"
    by (simp add: Nifti2Image_def)
  moreover have "length st \<noteq> buf a" using a(2) by simp
  ultimately show "\<exists>img. fs' (os_path_join savedir (dscalar_name fout)) = Some img \<and>
              img_data img = st' ! length st \<and> st' ! length st = st ! buf a \<and>
              length st \<noteq> buf a"
    using o(2) by simp
qed

theorem write_dense_image_keeps_input_witness:
  "write_dense_image demo_externals (Ndarray \<lparr>buf = 0, shape = [91282]\<rparr>) ''map'' ''/data''
     ([replicate 91282 1], demo_fs) =
   (Inr (), [replicate 91282 1, replicate 91282 1, replicate 91282 0],
    demo_fs(''/data/map.dscalar.nii'' \<mapsto>
      \<lparr>img_data = replicate 91282 1, img_shape = [1, 91282], img_affine = [],
       img_header = demo_header\<rparr>)) \<and>
   buf \<lparr>buf = 0, shape = [91282]\<rparr> < length [replicate 91282 (1::real)] \<and>
   take (length [replicate 91282 (1::real)])
     [replicate 91282 1, replicate 91282 1, replicate 91282 0] = [replicate 91282 (1::real)] \<and>
   [replicate 91282 1, replicate 91282 1, replicate 91282 (0::real)] ! buf \<lparr>buf = 0, shape = [91282]\<rparr>
     = [replicate 91282 1] ! buf \<lparr>buf = 0, shape = [91282]\<rparr> \<and>
   length [replicate 91282 (1::real)] \<noteq> buf \<lparr>buf = 0, shape = [91282]\<rparr>"
proof -
  let ?a = "\<lparr>buf = 0, shape = [91282]\<rparr>"
  have bound: "buf ?a < length [replicate 91282 (1::real)]"
    by simp
  note t = write_dense_image_keeps_input [rule_format, OF demo_dense_map]
  note u = t [THEN conjunct2, rule_format, of ?a, OF conjI [OF refl bound]]
  note v = u [THEN conjunct2, rule_format, OF refl]
  have tk: "take (length [replicate 91282 (1::real)])
     [replicate 91282 1, replicate 91282 1, replicate 91282 0] = [replicate 91282 (1::real)]"
    by (rule t [THEN conjunct1])
  have same: "[replicate 91282 1, replicate 91282 1, replicate 91282 (0::real)] ! buf ?a
        = [replicate 91282 1] ! buf ?a"
    by (rule u [THEN conjunct1])
  have fresh: "length [replicate 91282 (1::real)] \<noteq> buf ?a"
    using v by (elim exE conjE)
  from demo_dense_map bound tk same fresh show ?thesis by (intro conjI)
qed

subsection \<open>The parcellated image writer\<close>

lemma broadcast_to_one: "n \<noteq> 1 \<Longrightarrow> broadcast_to n [x] = Inr (replicate n x)"
  by (simp add: broadcast_to_def)

lemma map_unilateral_one_left:
  "map_unilateral_to_bilateral [x] (Some ''left'') = Inr (replicate 180 x @ replicate 180 0)"
  by (simp add: map_unilateral_to_bilateral_def check_hemisphere_cases set_slice_def
      broadcast_to_one np_zeros_def)

lemma map_unilateral_one_right:
  "map_unilateral_to_bilateral [x] (Some ''right'') = Inr (replicate 180 0 @ replicate 180 x)"
  by (simp add: map_unilateral_to_bilateral_def check_hemisphere_cases set_slice_def
      broadcast_to_one np_zeros_def)

lemma write_parcellated_image_one:
  "write_parcellated_image E [x] fout (Some ''left'') vrange cmap fs =
   write_parcellated_image E (replicate 180 x) fout (Some ''left'') vrange cmap fs"
  by (simp add: write_parcellated_image_def check_hemisphere_cases map_unilateral_one_left
      map_unilateral_left)

lemma set_cmap_succeeds:
  assumes "set_cmap_colors E dat cmap vrange mappable self = (Inr colors, self1)"
    and "descend (self_extensions self) label_path = Inr table"
    and "length (children table) \<le> length colors + 1"
  shows "\<exists>ext. set_cmap E dat cmap vrange mappable self =
           (Inr (), self1\<lparr>self_extensions := ext, self_ischanged := True\<rparr>)"
proof -
  have e: "self_extensions self1 = self_extensions self"
    using set_cmap_colors_frame [OF assms(1)] by simp
  have d: "descend (self_extensions self1) label_path = Inr table"
    using assms(2) e by simp
  have "\<forall>ii \<in> set [1..<length (children table)]. ii - 1 < length colors"
    using assms(3) by auto
  from color_loop_ok [OF d this, of E] obtain ext where
    "color_loop E colors [1..<length (children table)] (self_extensions self1) = (Inr (), ext)"
    by blast
  then have "set_cmap E dat cmap vrange mappable self =
           (Inr (), self1\<lparr>self_extensions := ext, self_ischanged := True\<rparr>)"
    using assms(1) d by (simp add: set_cmap_def)
  then show ?thesis by blast
qed

lemma demo_init:
  "Cifti_init demo_externals demo_fs (DLABEL_FILE demo_externals) = Inr demo_cifti"
  by (simp add: Cifti_init_def nib_load_def demo_fs_def demo_dlabel_def demo_externals_def
      demo_cifti_def demo_header_def get_content_def)

lemma demo_set_cmap_any:
  assumes "dat \<noteq> []" "2 \<le> length dat"
  shows "\<exists>c'. set_cmap demo_externals dat None None None demo_cifti = (Inr (), c') \<and>
           self_header c' = self_header demo_cifti"
proof -
  let ?lo = "Min (set dat)" and ?hi = "Max (set dat)"
  have cc: "plots_check_cmap demo_externals None = Inr ''gray''"
    and cv: "plots_check_vrange demo_externals None = Inr None"
    and cm: "cm_get_cmap demo_externals ''gray'' = Inr demo_gray"
    and gr: "cm_get_cmap demo_externals ''Greys'' = Inr demo_greys"
    by (simp_all add: demo_externals_def)
  from set_cmap_colors_linear [OF cc cv data_range_None [OF assms(1)]
      Min_le_Max_list [OF assms(1)] cm gr, of demo_cifti]
  obtain colors where c:
    "set_cmap_colors demo_externals dat None None None demo_cifti =
       (Inr colors, demo_cifti\<lparr>self_vrange := Some (?lo, ?hi)\<rparr>)"
    "length colors = length dat"
    by blast
  have "length (children (Element ''LabelTable'' []
          [demo_label ''0'', demo_label ''1'', demo_label ''2''])) \<le> length colors + 1"
    using c(2) assms(2) by simp
  from set_cmap_succeeds [OF c(1) demo_table this] show ?thesis
    by auto
qed

lemma write_parcellated_image_other_lengths:
  assumes "length v \<noteq> 180" "length v \<noteq> 1" "h = ''left'' \<or> h = ''right''"
  shows "write_parcellated_image E v fout (Some h) vrange cmap fs =
           (Inl (ValueError ''could not broadcast input array''), fs)"
  using assms
  by (auto simp: write_parcellated_image_def check_hemisphere_cases map_unilateral_to_bilateral_def
      set_slice_def broadcast_to_def np_zeros_def)

text \<open>
  C4. A call of \<^verbatim>\<open>write_parcellated_image\<close> with hemisphere \<^verbatim>\<open>'left'\<close> or \<^verbatim>\<open>'right'\<close> and a
  vector whose length is not 180 should raise. The function does not call
  \<^verbatim>\<open>check_pscalars_unilateral\<close>; the only check is the slice assignment of the padding,
  which raises for every length but 180 and 1 (\<open>write_parcellated_image_other_lengths\<close>)
  and repeats a vector of length 1 over the hemisphere. With the vector \<open>[5]\<close> the call
  returns, having done what it does for the vector of 180 fives, while
  \<^verbatim>\<open>check_pscalars_unilateral\<close> rejects that vector.
\<close>

theorem write_parcellated_image_accepts_length_one:
  "map_unilateral_to_bilateral [5] (Some ''left'') = Inr (replicate 180 5 @ replicate 180 0) \<and>
   map_unilateral_to_bilateral [5] (Some ''right'') = Inr (replicate 180 0 @ replicate 180 5) \<and>
   write_parcellated_image demo_externals [5] ''out.dlabel.nii'' (Some ''left'') None None demo_fs =
     write_parcellated_image demo_externals (replicate 180 5) ''out.dlabel.nii'' (Some ''left'')
       None None demo_fs \<and>
   fst (write_parcellated_image demo_externals [5] ''out.dlabel.nii'' (Some ''left'') None None
          demo_fs) = Inr () \<and>
   check_pscalars_unilateral (Ndarray \<lparr>buf = 0, shape = [1]\<rparr>) =
     Inl (RuntimeError ''unilateral pscalars must be length 180'')"
proof -
  let ?v = "replicate 180 5 @ replicate 180 (0::real)"
  have "?v \<noteq> []" "2 \<le> length ?v" by simp_all
  from demo_set_cmap_any [OF this] obtain c' where
    c: "set_cmap demo_externals ?v None None None demo_cifti = (Inr (), c')"
       "self_header c' = self_header demo_cifti"
    by blast
  have ne: "extensions (self_header c') \<noteq> []"
    using c(2) by (simp add: demo_cifti_def demo_header_def)
  have wr: "writable_path demo_externals ''out.dlabel.nii''"
    by (simp add: demo_externals_def)
  from save_succeeds [OF ne wr]
  have s: "fst (save demo_externals ''out.dlabel.nii'' c' demo_fs) = Inr ()" .
  have ok: "fst (write_parcellated_image demo_externals [5] ''out.dlabel.nii'' (Some ''left'')
      None None demo_fs) = Inr ()"
    using s c(1)
    by (cases "save demo_externals ''out.dlabel.nii'' c' demo_fs")
       (simp add: write_parcellated_image_def map_unilateral_one_left check_hemisphere_cases
        demo_init)
  have chk: "check_pscalars_unilateral (Ndarray \<lparr>buf = 0, shape = [1]\<rparr>) =
     Inl (RuntimeError ''unilateral pscalars must be length 180'')"
    by (simp add: check_pscalars_unilateral_def ndim_def size_of_def)
  from map_unilateral_one_left [of 5] map_unilateral_one_right [of 5]
    write_parcellated_image_one [of demo_externals 5] ok chk
  show ?thesis by (intro conjI)
qed

end
